theory Spec2Isabelle
  imports Complex_Main
begin

section \<open>Vectors and GLSL built-ins\<close>

text \<open>
  The shaders compute on GLSL \<open>float\<close>s and the frame callbacks on JavaScript numbers.
  Both are idealised as \<^typ>\<open>real\<close>: rounding is not modelled. GLSL \<open>int\<close> is
  \<^typ>\<open>int\<close>. A \<open>vec2\<close>, \<open>vec3\<close>, \<open>vec4\<close> is a tuple of components.
\<close>

type_synonym vec2 = "real \<times> real"
type_synonym vec3 = "real \<times> real \<times> real"
type_synonym vec4 = "real \<times> real \<times> real \<times> real"

text \<open>A bound texture, sampled at a coordinate (\<open>texture2D\<close>).\<close>

type_synonym sampler2D = "vec2 \<Rightarrow> vec4"

definition glsl_clamp :: "real \<Rightarrow> real \<Rightarrow> real \<Rightarrow> real" where
  "glsl_clamp x lo hi = min (max x lo) hi"


definition glsl_clampi :: "int \<Rightarrow> int \<Rightarrow> int \<Rightarrow> int" where
  "glsl_clampi x lo hi = min (max x lo) hi"

definition glsl_mix :: "real \<Rightarrow> real \<Rightarrow> real \<Rightarrow> real" where
  "glsl_mix x y a = x * (1 - a) + y * a"

definition glsl_mix3 :: "vec3 \<Rightarrow> vec3 \<Rightarrow> real \<Rightarrow> vec3" where
  "glsl_mix3 v w a =
     (case v of (r, g, b) \<Rightarrow> case w of (r', g', b') \<Rightarrow>
        (glsl_mix r r' a, glsl_mix g g' a, glsl_mix b b' a))"

definition vec3_of :: "real \<Rightarrow> vec3" where
  "vec3_of x = (x, x, x)"


section \<open>Colour adjustment stage (asciiFragmentShader, shaderUtils)\<close>

text \<open>The four colour controls are uniforms of the shader.\<close>

record colorUniforms =
  uSaturation :: real
  uBrightness :: real
  uContrast :: real
  uExposure :: real

definition calculateLuminance :: "vec3 \<Rightarrow> real" where
  "calculateLuminance color = (case color of (r, g, b) \<Rightarrow> 0.299 * r + 0.587 * g + 0.114 * b)"






section \<open>Pattern index selection (asciiFragmentShader main)\<close>

text \<open>
  \<open>lum = 0.85 - lum\<close>: the inversion, with the offset written into the shader.
\<close>

definition invertLum :: "real \<Rightarrow> real" where
  "invertLum lum = 0.85 - lum"

text \<open>
  The selection from the inverted luminance, \<open>scaledIntensity = lum * 5.0\<close> down to
  \<open>patternIndex = clamp(patternIndex, 0, 5)\<close>. \<open>int(floor(x))\<close> is \<^term>\<open>\<lfloor>x\<rfloor>\<close>.
\<close>

definition selectPatternIndex :: "real \<Rightarrow> int" where
  "selectPatternIndex lum =
     (let scaledIntensity = lum * 5.0;
          patternIndex =
            (if scaledIntensity < 0.5 then 0
             else if scaledIntensity < 3.5 then \<lfloor>scaledIntensity * 0.8\<rfloor> + 1
             else if scaledIntensity < 5.0 then 4
             else 5)
      in glsl_clampi patternIndex 0 5)"

section \<open>Pattern atlas sampling and the regular-pattern fallback\<close>

datatype texture = TargetTexture nat | ImageTexture string

text \<open>
  The uniforms of the pattern shader of CardAsciiPattern, and those the shader of
  Card3DAscii declares beyond them. A texture uniform holds a reference (\<open>null\<close> is
  \<^term>\<open>None\<close>); the shader functions below receive the bound texture as a
  \<^typ>\<open>sampler2D\<close>, as the GLSL functions take their \<open>atlas\<close> argument.
\<close>

record patternUniforms = colorUniforms +
  uImage :: "texture option"
  uImageDimensions :: vec2
  uDeformTexture :: "texture option"
  uResolution :: vec2
  uLogicalResolution :: vec2
  uCoordinateScale :: real
  uBaseTileSize :: real
  uTime :: real
  uAltPatternOpacity :: real
  uFadeThreshold :: real
  uFadeWidth :: real
  uPatternAtlas :: "texture option"
  uAltPatternAtlas :: "texture option"
  uPatternAtlasColumns :: int
  uAltPatternAtlasColumns :: int
  uDarkMode :: real

record asciiUniforms = patternUniforms +
  uPatternCount :: int
  uDeformStrength :: real
  uRandomSpeed :: real
  uRandomSpread :: real
  uRandomThreshold :: real
  uUseWhiteBackground :: real
  uEnableFadeTransition :: real
  uUseOriginalSvgColors :: real
  uBottomFade :: real

definition alpha :: "vec4 \<Rightarrow> real" where
  "alpha c = (case c of (r, g, b, a) \<Rightarrow> a)"

definition rgb :: "vec4 \<Rightarrow> vec3" where
  "rgb c = (case c of (r, g, b, a) \<Rightarrow> (r, g, b))"

text \<open>
  \<open>samplePatternAtlas\<close>. The divisor \<open>float(atlasColumns)\<close> is 4 or 6 in every frame
  (see \<open>compositeBlock\<close> below), so the division by zero that HOL would turn into 0
  does not arise there.
\<close>

definition samplePatternAtlas :: "sampler2D \<Rightarrow> int \<Rightarrow> int \<Rightarrow> vec2 \<Rightarrow> vec4" where
  "samplePatternAtlas atlas atlasColumns patternIndex uv =
     (let colIndex = real_of_int patternIndex;
          atlasOffset = (colIndex / real_of_int atlasColumns, 0::real);
          atlasUV = (fst uv / real_of_int atlasColumns + fst atlasOffset,
                     snd uv / 1 + snd atlasOffset)
      in atlas atlasUV)"

definition sampleAltPatternAtlas :: "sampler2D \<Rightarrow> int \<Rightarrow> int \<Rightarrow> vec2 \<Rightarrow> vec4" where
  "sampleAltPatternAtlas atlas atlasColumns patternIndex uv =
     (let colIndex = real_of_int patternIndex;
          margin = (0.5 / 512.0, 0::real);
          scaledUV = (fst uv * (1.0 - 2.0 * fst margin) + fst margin,
                      snd uv * (1.0 - 2.0 * fst margin) + snd margin);
          atlasOffset = (colIndex / real_of_int atlasColumns, 0::real);
          atlasUV = (fst scaledUV / real_of_int atlasColumns + fst atlasOffset,
                     snd scaledUV / 1 + snd atlasOffset)
      in atlas atlasUV)"

text \<open>
  \<open>getColorForIntensity\<close> of Card3DAscii. The copy in CardAsciiPattern has no
  \<open>uUseOriginalSvgColors\<close> branch; its \<open>useOriginalColors = false\<close> branch is the same text.
\<close>

definition getColorForIntensity ::
  "'a asciiUniforms_scheme \<Rightarrow> int \<Rightarrow> real \<Rightarrow> bool \<Rightarrow> vec3 \<Rightarrow> vec4 \<Rightarrow> vec3" where
  "getColorForIntensity u patternIndex patternAlpha useOriginalColors originalColor patternColor =
     (if useOriginalColors then
        (let backgroundColor = (1.0, 1.0, 1.0) in
         if patternAlpha < 0.001 then backgroundColor
         else if uUseOriginalSvgColors u > 0.5 then
           glsl_mix3 backgroundColor (rgb patternColor) patternAlpha
         else
           (let blendedColor = glsl_mix3 backgroundColor originalColor patternAlpha
            in glsl_mix3 backgroundColor blendedColor (uAltPatternOpacity u)))
      else
        (let dark = uDarkMode u > 0.5;
             backgroundColor = (if dark then (0.0, 0.0, 0.0) else (1.0, 1.0, 1.0));
             color1 = (if dark then vec3_of 0.33 else vec3_of 0.949);
             color2 = (if dark then vec3_of 0.33 else vec3_of 0.91);
             color2b = (if dark then vec3_of 0.33 else vec3_of 0.925);
             color3 = (if dark then vec3_of 0.33 else vec3_of 0.98);
             color4 = (if dark then vec3_of 0.33 else vec3_of 0.99)
         in if patternAlpha < 0.001 then backgroundColor
            else if patternIndex \<le> 1 then color1
            else if patternIndex = 2 then color2
            else if patternIndex = 3 then color2b
            else if patternIndex \<le> 4 then color3
            else color4))"

text \<open>The column of the regular atlas for a pattern index.\<close>

definition regularAtlasIndex :: "int \<Rightarrow> int \<Rightarrow> int" where
  "regularAtlasIndex columns patternIndex =
     (if patternIndex = 0 then max 0 (columns - 1)
      else if patternIndex = 1 then max 0 (columns - 2)
      else if patternIndex = 2 then max 0 (columns - 3)
      else if patternIndex = 3 then max 0 (columns - 4)
      else if patternIndex = 4 then max 0 (columns - 5)
      else 0)"

definition regularNeedsFallback :: "vec3 \<Rightarrow> bool" where
  "regularNeedsFallback regularColor =
     (case regularColor of (r, g, b) \<Rightarrow> r \<ge> 0.999 \<and> g \<ge> 0.999 \<and> b \<ge> 0.999)"

text \<open>The sample the fallback takes: \<open>regularFallbackPattern\<close>.\<close>

definition regularFallbackPattern :: "'a asciiUniforms_scheme \<Rightarrow> sampler2D \<Rightarrow> int \<Rightarrow> vec2 \<Rightarrow> vec4" where
  "regularFallbackPattern u atlas patternIndex patternUV =
     (if patternIndex \<le> 2 then
        samplePatternAtlas atlas (uPatternAtlasColumns u) (uPatternAtlasColumns u - 2) patternUV
      else
        samplePatternAtlas atlas (uPatternAtlasColumns u) (uPatternAtlasColumns u - 3) patternUV)"

text \<open>The block \<open>if (regularNeedsFallback) { ... }\<close>, returning the new \<open>regularColor\<close>.\<close>

definition applyRegularFallback ::
  "'a asciiUniforms_scheme \<Rightarrow> sampler2D \<Rightarrow> int \<Rightarrow> vec2 \<Rightarrow> vec3 \<Rightarrow> vec3" where
  "applyRegularFallback u atlas patternIndex patternUV regularColor =
     (if regularNeedsFallback regularColor then
        (if alpha (regularFallbackPattern u atlas patternIndex patternUV) < 0.001 then
           (let backgroundColor = (if uDarkMode u > 0.5 then (0.0, 0.0, 0.0) else (1.0, 1.0, 1.0))
            in backgroundColor)
         else (0.925, 0.925, 0.925))
      else regularColor)"

text \<open>
  The regular colour of a pixel as \<open>main\<close> resolves it: the atlas column, the sample,
  the palette colour, the fallback.
\<close>

definition regularColorOf ::
  "'a asciiUniforms_scheme \<Rightarrow> sampler2D \<Rightarrow> int \<Rightarrow> vec2 \<Rightarrow> vec3 \<Rightarrow> vec3" where
  "regularColorOf u atlas patternIndex patternUV originalCol =
     (let column = regularAtlasIndex (uPatternAtlasColumns u) patternIndex;
          regularPatternColor = samplePatternAtlas atlas (uPatternAtlasColumns u) column patternUV;
          regularColor = getColorForIntensity u patternIndex (alpha regularPatternColor) False
                           originalCol regularPatternColor
      in applyRegularFallback u atlas patternIndex patternUV regularColor)"

section \<open>Tile arithmetic and the luminance of a tile\<close>

text \<open>
  A GLSL division by zero has no defined result; the model makes it \<^term>\<open>None\<close>.
\<close>

definition glsl_div :: "real \<Rightarrow> real \<Rightarrow> real option" where
  "glsl_div x y = (if y = 0 then None else Some (x / y))"

text \<open>\<open>pix = gl_FragCoord.xy * uCoordinateScale; tilePos = floor(pix / uBaseTileSize) * uBaseTileSize\<close>.\<close>

definition tilePos :: "'a patternUniforms_scheme \<Rightarrow> vec2 \<Rightarrow> vec2 option" where
  "tilePos u fragCoord =
     (let pix = (fst fragCoord * uCoordinateScale u, snd fragCoord * uCoordinateScale u) in
      case glsl_div (fst pix) (uBaseTileSize u) of
        None \<Rightarrow> None
      | Some qx \<Rightarrow>
          (case glsl_div (snd pix) (uBaseTileSize u) of
             None \<Rightarrow> None
           | Some qy \<Rightarrow>
               Some (real_of_int \<lfloor>qx\<rfloor> * uBaseTileSize u, real_of_int \<lfloor>qy\<rfloor> * uBaseTileSize u)))"

text \<open>
  The luminance of a tile with the temporal wobble, then the inversion and the selection:
  \<open>float lum = calculateLuminance(originalCol)\<close> down to the clamp of \<open>patternIndex\<close>.
\<close>

definition patternIndexOfTile :: "'a patternUniforms_scheme \<Rightarrow> vec2 \<Rightarrow> vec3 \<Rightarrow> int" where
  "patternIndexOfTile u tileIndex originalCol =
     (let lum0 = calculateLuminance originalCol;
          timeOffset = sin (uTime u * 0.5 + (fst tileIndex * 0.008 + snd tileIndex * 0.008)) * 0.1;
          lum1 = glsl_clamp (lum0 + timeOffset) 0.0 1.0;
          lum2 = invertLum lum1
      in selectPatternIndex lum2)"

section \<open>Ping-pong buffers (class DoubleFBO)\<close>

text \<open>
  A render target is an object; its identity is the number the allocator hands out when
  \<open>new THREE.WebGLRenderTarget\<close> runs. A \<open>DoubleFBO\<close> holds two references.
\<close>

record DoubleFBO =
  fbo_read :: nat
  fbo_write :: nat

definition newRenderTarget :: "nat \<Rightarrow> nat \<times> nat" where
  "newRenderTarget next = (next, Suc next)"

definition newDoubleFBO :: "nat \<Rightarrow> DoubleFBO \<times> nat" where
  "newDoubleFBO next =
     (case newRenderTarget next of (r, next1) \<Rightarrow>
      case newRenderTarget next1 of (w, next2) \<Rightarrow>
        (\<lparr>fbo_read = r, fbo_write = w\<rparr>, next2))"

definition swap :: "DoubleFBO \<Rightarrow> DoubleFBO" where
  "swap d = (let temp = fbo_read d in d\<lparr>fbo_read := fbo_write d, fbo_write := temp\<rparr>)"

section \<open>The renderer and the fluid shaders\<close>

text \<open>
  The part of the \<open>THREE.WebGLRenderer\<close> the frame callbacks use: the bound render target
  (\<open>null\<close>, the visible surface, is \<^term>\<open>None\<close>), the \<open>autoClear\<close> flag, and the
  contents of the textures of the render targets. \<open>passes\<close> is a ghost field: every
  \<open>gl.render\<close> appends which scene it drew, into which target, under which \<open>autoClear\<close>.
  Only the passes of the fluid scene write \<open>contents\<close>: what the model scene, the pattern
  scene and the display scene draw is not tracked per pixel. Their targets are the scene
  buffer, the pattern buffer and the visible surface, objects of their own that no fluid
  pass reads.
\<close>

datatype passKind =
  FillPass | SplatPass | AdvectionPass | ModelPass | PatternPass | CustomPass | DisplayPass

type_synonym renderPass = "passKind \<times> nat option \<times> bool"

record glState =
  renderTarget :: "nat option"
  autoClear :: bool
  contents :: "nat \<Rightarrow> sampler2D"
  passes :: "renderPass list"

definition setRenderTarget :: "nat option \<Rightarrow> glState \<Rightarrow> glState" where
  "setRenderTarget t g = g\<lparr>renderTarget := t\<rparr>"

text \<open>
  \<open>gl.render\<close> of a fullscreen triangle: every texel of the bound target is overwritten
  by the fragment shader's value at its coordinate.
\<close>

definition draw :: "passKind \<Rightarrow> sampler2D option \<Rightarrow> glState \<Rightarrow> glState" where
  "draw k frag g =
     g\<lparr>contents :=
          (case renderTarget g of
             None \<Rightarrow> contents g
           | Some t \<Rightarrow> (case frag of None \<Rightarrow> contents g | Some f \<Rightarrow> (contents g)(t := f))),
       passes := passes g @ [(k, renderTarget g, autoClear g)]\<rparr>"

text \<open>A texture uniform of a fluid material: the render target whose texture is bound.\<close>

definition boundTexture :: "glState \<Rightarrow> nat option \<Rightarrow> sampler2D" where
  "boundTexture g t = (case t of None \<Rightarrow> (\<lambda>uv. (0, 0, 0, 1)) | Some i \<Rightarrow> contents g i)"

record splatUniforms =
  sp_uTarget :: "nat option"
  sp_aspectRatio :: real
  sp_color :: vec3
  sp_point :: vec2
  sp_radius :: real

record advectionUniforms =
  adv_texelSize :: vec2
  adv_uVelocity :: "nat option"
  adv_uSource :: "nat option"
  adv_dt :: real
  adv_dissipation :: real

definition splatShader :: "splatUniforms \<Rightarrow> sampler2D \<Rightarrow> vec2 \<Rightarrow> vec4" where
  "splatShader u uTarget vUv =
     (let p0 = (fst vUv - fst (sp_point u), snd vUv - snd (sp_point u));
          p = (fst p0 * sp_aspectRatio u, snd p0);
          falloff = exp (- (fst p * fst p + snd p * snd p) / sp_radius u)
      in case sp_color u of (cr, cg, cb) \<Rightarrow>
         case rgb (uTarget vUv) of (br, bg, bb) \<Rightarrow>
           (br + falloff * cr, bg + falloff * cg, bb + falloff * cb, 1.0))"

definition advectionShader :: "advectionUniforms \<Rightarrow> sampler2D \<Rightarrow> sampler2D \<Rightarrow> vec2 \<Rightarrow> vec4" where
  "advectionShader u uVelocity uSource vUv =
     (case uVelocity vUv of (vx, vy, vz, vw) \<Rightarrow>
      let coord = (fst vUv - adv_dt u * vx * fst (adv_texelSize u),
                   snd vUv - adv_dt u * vy * snd (adv_texelSize u))
      in case uSource coord of (r, g, b, a) \<Rightarrow>
           (adv_dissipation u * r, adv_dissipation u * g, adv_dissipation u * b, 1.0))"

definition fillShader :: "vec3 \<Rightarrow> vec2 \<Rightarrow> vec4" where
  "fillShader uColor vUv = (case uColor of (r, g, b) \<Rightarrow> (r, g, b, 1.0))"

section \<open>State of a mounted scene\<close>

datatype fluidMaterial = SplatMaterial | AdvectionMaterial | FillMaterial

text \<open>
  What AsciiFluidScene and Scene3DAscii both hold in refs, memoised objects and material
  uniforms. \<open>fillUColor\<close> is the uniform of the fill material, which only Scene3DAscii
  creates; AsciiFluidScene never selects it.
\<close>

record fluidState =
  gl :: glState
  timeRef :: real
  lastMouseRef :: vec2
  isMouseInitRef :: bool
  velocityFBO :: DoubleFBO
  densityFBO :: DoubleFBO
  patternFBO :: nat
  patternFBOSize :: vec2
  splatU :: splatUniforms
  advectionU :: advectionUniforms
  fillUColor :: vec3
  fluidMeshMaterial :: fluidMaterial
  display_uMap :: "texture option"

definition setTarget :: "nat option \<Rightarrow> 'a fluidState_scheme \<Rightarrow> 'a fluidState_scheme" where
  "setTarget t st = st\<lparr>gl := setRenderTarget t (gl st)\<rparr>"

text \<open>\<open>gl.render(fluidScene, quadCamera)\<close>: the fluid mesh is drawn with its current material.\<close>

definition renderFluidScene :: "'a fluidState_scheme \<Rightarrow> 'a fluidState_scheme" where
  "renderFluidScene st =
     (case fluidMeshMaterial st of
        SplatMaterial \<Rightarrow>
          st\<lparr>gl := draw SplatPass
                  (Some (splatShader (splatU st) (boundTexture (gl st) (sp_uTarget (splatU st)))))
                  (gl st)\<rparr>
      | AdvectionMaterial \<Rightarrow>
          st\<lparr>gl := draw AdvectionPass
                  (Some (advectionShader (advectionU st)
                           (boundTexture (gl st) (adv_uVelocity (advectionU st)))
                           (boundTexture (gl st) (adv_uSource (advectionU st)))))
                  (gl st)\<rparr>
      | FillMaterial \<Rightarrow>
          st\<lparr>gl := draw FillPass (Some (fillShader (fillUColor st))) (gl st)\<rparr>)"

text \<open>
  The splat of both fields, the body of
  \<open>if (Math.abs(deltaX) > 0.1 || Math.abs(deltaY) > 0.1)\<close>.
\<close>

definition splatBlock :: "vec2 \<Rightarrow> vec2 \<Rightarrow> real \<Rightarrow> real \<Rightarrow> 'a fluidState_scheme \<Rightarrow> 'a fluidState_scheme" where
  "splatBlock mouse sz deltaX deltaY st0 =
     (let st1 = st0\<lparr>splatU := (splatU st0)\<lparr>sp_uTarget := Some (fbo_read (velocityFBO st0)),
                                           sp_aspectRatio := fst sz / snd sz,
                                           sp_point := mouse,
                                           sp_color := (deltaX * 5, deltaY * 5, 1)\<rparr>,
                     fluidMeshMaterial := SplatMaterial\<rparr>;
          st2 = setTarget (Some (fbo_write (velocityFBO st1))) st1;
          st3 = renderFluidScene st2;
          st4 = st3\<lparr>velocityFBO := swap (velocityFBO st3)\<rparr>;
          st5 = st4\<lparr>splatU := (splatU st4)\<lparr>sp_uTarget := Some (fbo_read (densityFBO st4)),
                                           sp_color := (\<bar>deltaX\<bar> * 0.1 + 0.2,
                                                        \<bar>deltaY\<bar> * 0.1 + 0.3,
                                                        \<bar>deltaX + deltaY\<bar> * 0.05 + 0.5)\<rparr>\<rparr>;
          st6 = setTarget (Some (fbo_write (densityFBO st5))) st5;
          st7 = renderFluidScene st6
      in st7\<lparr>densityFBO := swap (densityFBO st7)\<rparr>)"

text \<open>
  The pointer handling inside the hover guard: the first frame only records the position,
  later frames splat when the displacement leaves the deadband.
\<close>

definition pointerBlock :: "vec2 \<Rightarrow> vec2 \<Rightarrow> 'a fluidState_scheme \<Rightarrow> 'a fluidState_scheme" where
  "pointerBlock mouse sz st =
     (if \<not> isMouseInitRef st then st\<lparr>isMouseInitRef := True, lastMouseRef := mouse\<rparr>
      else
        (let deltaX = (fst mouse - fst (lastMouseRef st)) * 100;
             deltaY = (snd mouse - snd (lastMouseRef st)) * 100;
             st1 = (if \<bar>deltaX\<bar> > 0.1 \<or> \<bar>deltaY\<bar> > 0.1
                    then splatBlock mouse sz deltaX deltaY st else st)
         in st1\<lparr>lastMouseRef := mouse\<rparr>))"

text \<open>The advection of the velocity field, then of the density field.\<close>

definition advectBlock :: "real \<Rightarrow> real \<Rightarrow> 'a fluidState_scheme \<Rightarrow> 'a fluidState_scheme" where
  "advectBlock velocityDiss densityDiss st0 =
     (let st1 = st0\<lparr>advectionU := (advectionU st0)\<lparr>adv_uVelocity := Some (fbo_read (velocityFBO st0)),
                                                   adv_uSource := Some (fbo_read (velocityFBO st0)),
                                                   adv_dissipation := velocityDiss\<rparr>,
                     fluidMeshMaterial := AdvectionMaterial\<rparr>;
          st2 = setTarget (Some (fbo_write (velocityFBO st1))) st1;
          st3 = renderFluidScene st2;
          st4 = st3\<lparr>velocityFBO := swap (velocityFBO st3)\<rparr>;
          st5 = st4\<lparr>advectionU := (advectionU st4)\<lparr>adv_uSource := Some (fbo_read (densityFBO st4)),
                                                   adv_dissipation := densityDiss\<rparr>\<rparr>;
          st6 = setTarget (Some (fbo_write (densityFBO st5))) st5;
          st7 = renderFluidScene st6
      in st7\<lparr>densityFBO := swap (densityFBO st7)\<rparr>)"

text \<open>\<open>Math.round\<close> rounds half up.\<close>

definition js_round :: "real \<Rightarrow> real" where
  "js_round x = real_of_int \<lfloor>x + 0.5\<rfloor>"

text \<open>
  What \<open>useThree\<close>, \<open>window\<close> and the texture loader give a frame: \<open>viewSize\<close> is
  \<open>size\<close> (width, height), \<open>devicePixelRatio\<close> is \<^term>\<open>None\<close> where \<open>window\<close> is undefined,
  an atlas is \<^term>\<open>None\<close> until it has loaded.
\<close>

record hooks =
  viewSize :: vec2
  devicePixelRatio :: "real option"
  patternAtlas :: "texture option"
  altPatternAtlas :: "texture option"

definition pixelRatioOf :: "'a hooks_scheme \<Rightarrow> real" where
  "pixelRatioOf h = (case devicePixelRatio h of None \<Rightarrow> 1 | Some r \<Rightarrow> r)"

definition renderWidth :: "'a hooks_scheme \<Rightarrow> real" where
  "renderWidth h = js_round (fst (viewSize h) * 2 * pixelRatioOf h)"

definition renderHeight :: "'a hooks_scheme \<Rightarrow> real" where
  "renderHeight h = js_round (snd (viewSize h) * 2 * pixelRatioOf h)"

text \<open>
  The display pass and the restore that end both callbacks: \<open>gl.setRenderTarget(null);
  gl.autoClear = false; gl.render(displayScene, quadCamera)\<close>.
\<close>

definition presentBlock :: "'a fluidState_scheme \<Rightarrow> 'a fluidState_scheme" where
  "presentBlock st0 =
     (let st1 = setTarget None st0;
          st2 = st1\<lparr>gl := (gl st1)\<lparr>autoClear := False\<rparr>\<rparr>
      in st2\<lparr>gl := draw DisplayPass None (gl st2)\<rparr>)"

definition restoreBlock :: "nat option \<Rightarrow> bool \<Rightarrow> 'a fluidState_scheme \<Rightarrow> 'a fluidState_scheme" where
  "restoreBlock prevTarget prevAutoClear st0 =
     (let st1 = setTarget prevTarget st0
      in st1\<lparr>gl := (gl st1)\<lparr>autoClear := prevAutoClear\<rparr>\<rparr>)"

section \<open>AsciiFluidScene (CardAsciiPattern)\<close>

record cardProps =
  tileSize :: real
  saturation :: real
  darkMode :: bool

record AsciiFluidSceneProps = cardProps +
  imageUrl :: string
  enableInteractivity :: bool

record hooks2d = hooks +
  imageTexture :: "texture option"
  imageDimensions :: vec2

record state2d = fluidState +
  mouseRef :: vec2
  isHoveredRef :: bool
  patternU :: patternUniforms

text \<open>The uniforms of the materials as \<open>useMemo\<close> creates them.\<close>

definition newSplatMaterial :: "real \<Rightarrow> splatUniforms" where
  "newSplatMaterial r =
     \<lparr>sp_uTarget = None, sp_aspectRatio = 1, sp_color = (0, 0, 0), sp_point = (0, 0),
      sp_radius = r\<rparr>"

definition newAdvectionMaterial :: advectionUniforms where
  "newAdvectionMaterial =
     \<lparr>adv_texelSize = (1 / 128, 1 / 128), adv_uVelocity = None, adv_uSource = None,
      adv_dt = 0.016, adv_dissipation = 1\<rparr>"

definition newPatternMaterial :: "AsciiFluidSceneProps \<Rightarrow> 'a hooks_scheme \<Rightarrow> patternUniforms" where
  "newPatternMaterial props h =
     \<lparr>uSaturation = saturation props, uBrightness = 0.0, uContrast = 1.0, uExposure = 0.0,
      uImage = None, uImageDimensions = (1, 1), uDeformTexture = None,
      uResolution = viewSize h, uLogicalResolution = viewSize h, uCoordinateScale = 1.0,
      uBaseTileSize = tileSize props, uTime = 0, uAltPatternOpacity = 1.0,
      uFadeThreshold = 0.1, uFadeWidth = 0.05, uPatternAtlas = None, uAltPatternAtlas = None,
      uPatternAtlasColumns = 4, uAltPatternAtlasColumns = 6,
      uDarkMode = (if darkMode props then 1.0 else 0.0)\<rparr>"

text \<open>
  The empty texture of a new render target, and the state after the component mounts on a
  renderer \<open>g\<close>, the allocator standing at \<open>next\<close>.
\<close>

definition emptyTexture :: sampler2D where
  "emptyTexture = (\<lambda>uv. (0, 0, 0, 0))"

definition mountAsciiFluidScene ::
  "AsciiFluidSceneProps \<Rightarrow> 'a hooks_scheme \<Rightarrow> glState \<Rightarrow> nat \<Rightarrow> state2d" where
  "mountAsciiFluidScene props h g next =
     (case newDoubleFBO next of (vel, next1) \<Rightarrow>
      case newDoubleFBO next1 of (den, next2) \<Rightarrow>
      case newRenderTarget next2 of (pat, next3) \<Rightarrow>
        \<lparr>gl = g, timeRef = 0, lastMouseRef = (-1, -1), isMouseInitRef = False,
         velocityFBO = vel, densityFBO = den, patternFBO = pat,
         patternFBOSize = (renderWidth h, renderHeight h),
         splatU = newSplatMaterial 0.0035, advectionU = newAdvectionMaterial,
         fillUColor = (0, 0, 0), fluidMeshMaterial = SplatMaterial, display_uMap = None,
         mouseRef = (-1, -1), isHoveredRef = False, patternU = newPatternMaterial props h\<rparr>)"

text \<open>The block under \<open>// ASCII pattern render\<close>.\<close>

definition patternBlock2d :: "hooks2d \<Rightarrow> state2d \<Rightarrow> state2d" where
  "patternBlock2d h st0 =
     (let st1 = st0\<lparr>patternU := (patternU st0)
                   \<lparr>uTime := timeRef st0,
                    uImage := imageTexture h,
                    uImageDimensions := imageDimensions h,
                    uDeformTexture := Some (TargetTexture (fbo_read (densityFBO st0))),
                    uPatternAtlas := patternAtlas h,
                    uAltPatternAtlas := altPatternAtlas h,
                    uResolution := (renderWidth h, renderHeight h),
                    uLogicalResolution := viewSize h,
                    uCoordinateScale := fst (viewSize h) / renderWidth h\<rparr>\<rparr>;
          st2 = st1\<lparr>patternFBOSize := (renderWidth h, renderHeight h)\<rparr>;
          st3 = setTarget (Some (patternFBO st2)) st2
      in st3\<lparr>gl := draw PatternPass None (gl st3)\<rparr>)"

text \<open>The \<open>useFrame\<close> callback of AsciiFluidScene. An early \<open>return\<close> leaves the state as it is.\<close>

definition frame2d :: "AsciiFluidSceneProps \<Rightarrow> hooks2d \<Rightarrow> state2d \<Rightarrow> state2d" where
  "frame2d props h st =
     (if imageTexture h = None \<or> patternAtlas h = None \<or> altPatternAtlas h = None then st
      else
        (let st1 = st\<lparr>timeRef := timeRef st + 0.05\<rparr>;
             prevTarget = renderTarget (gl st1);
             prevAutoClear = autoClear (gl st1);
             st2 = (if enableInteractivity props \<and> isHoveredRef st1
                    then pointerBlock (mouseRef st1) (viewSize h) st1 else st1);
             st3 = advectBlock 0.9 0.96 st2;
             st4 = patternBlock2d h st3;
             st5 = st4\<lparr>display_uMap := Some (TargetTexture (patternFBO st4))\<rparr>;
             st6 = presentBlock st5
         in restoreBlock prevTarget prevAutoClear st6))"

section \<open>Scene3DAscii (Card3DAscii)\<close>

datatype ShaderType =
  Ascii | Crt | Glitch | Pixelate | Halftone | Matrix | Thermal | Neon | Sketch | Vaporwave | Noir

text \<open>\<open>shaderMap\<close>: the fragment shader of each alternate filter, by the name of its constant.\<close>

definition shaderMap :: "ShaderType \<Rightarrow> string option" where
  "shaderMap t =
     (case t of
        Ascii \<Rightarrow> None
      | Crt \<Rightarrow> Some ''crtShader''
      | Glitch \<Rightarrow> Some ''glitchShader''
      | Pixelate \<Rightarrow> Some ''pixelateShader''
      | Halftone \<Rightarrow> Some ''halftoneShader''
      | Matrix \<Rightarrow> Some ''matrixShader''
      | Thermal \<Rightarrow> Some ''thermalShader''
      | Neon \<Rightarrow> Some ''neonShader''
      | Sketch \<Rightarrow> Some ''sketchShader''
      | Vaporwave \<Rightarrow> Some ''vaporwaveShader''
      | Noir \<Rightarrow> Some ''noirShader'')"

text \<open>
  The props the callback of Scene3DAscii can read. The props of the 3D model (path, accent
  colour, float animation, scale) are left out: the callback never mentions them.
\<close>

record Scene3DAsciiProps = cardProps +
  brightness :: real
  contrast :: real
  exposure :: real
  animationSpeed :: real
  enablePainting :: bool
  paintRadius :: real
  velocityDissipation :: real
  densityDissipation :: real
  useBlockyPattern :: bool
  luminanceOffset :: real
  fadeThreshold :: real
  fadeWidth :: real
  patternOpacity :: real
  enableFadeTransition :: bool
  invertLuminance :: bool
  mouseUV :: vec2
  isCardHovered :: bool
  shaderType :: ShaderType
  shaderIntensity :: real

text \<open>The defaults of the destructured props of Card3DAscii.\<close>

definition defaultProps :: Scene3DAsciiProps where
  "defaultProps =
     \<lparr>tileSize = 6, saturation = 1.0, darkMode = False,
      brightness = 0.0, contrast = 1.0, exposure = 0.0, animationSpeed = 1.0,
      enablePainting = False, paintRadius = 0.0035, velocityDissipation = 0.9,
      densityDissipation = 0.98, useBlockyPattern = True, luminanceOffset = 0.85,
      fadeThreshold = 0.1, fadeWidth = 0.05, patternOpacity = 1.0,
      enableFadeTransition = False, invertLuminance = True, mouseUV = (-1, -1),
      isCardHovered = False, shaderType = Ascii, shaderIntensity = 0.8\<rparr>"

record customUniforms =
  c_uImage :: "texture option"
  c_uResolution :: vec2
  c_uTime :: real
  c_uSaturation :: real
  c_uBrightness :: real
  c_uContrast :: real
  c_uExposure :: real
  c_uDarkMode :: real
  c_uIntensity :: real
  c_uBaseTileSize :: real

record state3d = fluidState +
  sceneFBO :: nat
  sceneFBOSize :: vec2
  densityInitializedRef :: bool
  asciiU :: asciiUniforms
  customU :: "customUniforms option"

definition newAsciiMaterial :: "Scene3DAsciiProps \<Rightarrow> 'a hooks_scheme \<Rightarrow> asciiUniforms" where
  "newAsciiMaterial props h =
     \<lparr>uSaturation = 1.0, uBrightness = 0.0, uContrast = 1.0, uExposure = 0.0,
      uImage = None, uImageDimensions = viewSize h, uDeformTexture = None,
      uResolution = viewSize h, uLogicalResolution = viewSize h, uCoordinateScale = 1.0,
      uBaseTileSize = tileSize props, uTime = 0, uAltPatternOpacity = 1.0,
      uFadeThreshold = 0.1, uFadeWidth = 0.05, uPatternAtlas = None, uAltPatternAtlas = None,
      uPatternAtlasColumns = 4, uAltPatternAtlasColumns = 6,
      uDarkMode = (if darkMode props then 1.0 else 0.0),
      uPatternCount = 6, uDeformStrength = 0.05, uRandomSpeed = 0.1, uRandomSpread = 0.5,
      uRandomThreshold = 0.3, uUseWhiteBackground = 1.0, uEnableFadeTransition = 0.0,
      uUseOriginalSvgColors = 0.0, uBottomFade = 0.0\<rparr>"

definition newCustomShaderMaterial :: "Scene3DAsciiProps \<Rightarrow> 'a hooks_scheme \<Rightarrow> customUniforms option" where
  "newCustomShaderMaterial props h =
     (if shaderType props = Ascii then None
      else case shaderMap (shaderType props) of
        None \<Rightarrow> None
      | Some fragmentShader \<Rightarrow>
          Some \<lparr>c_uImage = None, c_uResolution = viewSize h, c_uTime = 0,
                c_uSaturation = saturation props, c_uBrightness = brightness props,
                c_uContrast = contrast props, c_uExposure = exposure props,
                c_uDarkMode = (if darkMode props then 1.0 else 0.0),
                c_uIntensity = shaderIntensity props, c_uBaseTileSize = tileSize props\<rparr>)"

definition mountScene3DAscii ::
  "Scene3DAsciiProps \<Rightarrow> 'a hooks_scheme \<Rightarrow> glState \<Rightarrow> nat \<Rightarrow> state3d" where
  "mountScene3DAscii props h g next =
     (case newRenderTarget next of (scn, next1) \<Rightarrow>
      case newDoubleFBO next1 of (vel, next2) \<Rightarrow>
      case newDoubleFBO next2 of (den, next3) \<Rightarrow>
      case newRenderTarget next3 of (pat, next4) \<Rightarrow>
        \<lparr>gl = g, timeRef = 0, lastMouseRef = (-1, -1), isMouseInitRef = False,
         velocityFBO = vel, densityFBO = den, patternFBO = pat,
         patternFBOSize = (renderWidth h, renderHeight h),
         splatU = newSplatMaterial (paintRadius props), advectionU = newAdvectionMaterial,
         fillUColor = (0.5, 0.5, 0.5), fluidMeshMaterial = SplatMaterial, display_uMap = None,
         sceneFBO = scn, sceneFBOSize = (fst (viewSize h) * 2, snd (viewSize h) * 2),
         densityInitializedRef = False, asciiU = newAsciiMaterial props h,
         customU = newCustomShaderMaterial props h\<rparr>)"

text \<open>The block under \<open>// Initialize density FBO with paint (once)\<close>.\<close>

definition initDensityBlock :: "state3d \<Rightarrow> state3d" where
  "initDensityBlock st0 =
     (let st1 = st0\<lparr>densityInitializedRef := True, fillUColor := (0.5, 0.5, 0.5),
                     fluidMeshMaterial := FillMaterial\<rparr>;
          st2 = setTarget (Some (fbo_write (densityFBO st1))) st1;
          st3 = renderFluidScene st2;
          st4 = st3\<lparr>densityFBO := swap (densityFBO st3)\<rparr>;
          st5 = setTarget (Some (fbo_write (densityFBO st4))) st4;
          st6 = renderFluidScene st5
      in st6\<lparr>densityFBO := swap (densityFBO st6)\<rparr>)"

text \<open>
  The block under \<open>// Fluid simulation (only when painting is enabled and hovering)\<close>: the
  pointer handling and the two advections are both inside the guard.
\<close>

definition simulateBlock :: "Scene3DAsciiProps \<Rightarrow> 'a hooks_scheme \<Rightarrow> state3d \<Rightarrow> state3d" where
  "simulateBlock props h st0 =
     (if shaderType props = Ascii \<and> enablePainting props \<and> isCardHovered props
         \<and> fst (mouseUV props) \<ge> 0 \<and> snd (mouseUV props) \<ge> 0
      then
        (let st1 = pointerBlock (mouseUV props) (viewSize h) st0
         in advectBlock (velocityDissipation props) (densityDissipation props) st1)
      else st0)"

text \<open>The block under \<open>// Render 3D scene to FBO\<close>.\<close>

definition captureBlock :: "'a hooks_scheme \<Rightarrow> state3d \<Rightarrow> state3d" where
  "captureBlock h st0 =
     (let st1 = st0\<lparr>sceneFBOSize := (fst (viewSize h) * 2, snd (viewSize h) * 2)\<rparr>;
          st2 = setTarget (Some (sceneFBO st1)) st1
      in st2\<lparr>gl := draw ModelPass None (gl st2)\<rparr>)"

text \<open>
  The \<open>if (shaderType === 'ascii') { ... } else { ... }\<close> that fills the pattern buffer. The
  guard at the top of the callback excludes a missing custom material in the second branch.
\<close>

definition compositeBlock :: "Scene3DAsciiProps \<Rightarrow> 'a hooks_scheme \<Rightarrow> state3d \<Rightarrow> state3d" where
  "compositeBlock props h st0 =
     (if shaderType props = Ascii then
        (let st1 = st0\<lparr>asciiU := (asciiU st0)
                      \<lparr>uImage := Some (TargetTexture (sceneFBO st0)),
                       uImageDimensions := (fst (viewSize h) * 2, snd (viewSize h) * 2),
                       uDeformTexture := Some (TargetTexture (fbo_read (densityFBO st0))),
                       uPatternAtlas := patternAtlas h,
                       uAltPatternAtlas := altPatternAtlas h,
                       uTime := timeRef st0 * animationSpeed props,
                       uResolution := (renderWidth h, renderHeight h),
                       uLogicalResolution := viewSize h,
                       uCoordinateScale := fst (viewSize h) / renderWidth h,
                       uBaseTileSize := tileSize props,
                       uSaturation := saturation props,
                       uBrightness := brightness props,
                       uContrast := contrast props,
                       uExposure := exposure props,
                       uDarkMode := (if darkMode props then 1.0 else 0.0),
                       uPatternAtlasColumns := (if useBlockyPattern props then 6 else 4),
                       uAltPatternAtlasColumns := 6,
                       uFadeThreshold := fadeThreshold props,
                       uFadeWidth := fadeWidth props,
                       uAltPatternOpacity := patternOpacity props,
                       uEnableFadeTransition := (if enableFadeTransition props then 1.0 else 0.0)\<rparr>\<rparr>;
             st2 = st1\<lparr>patternFBOSize := (renderWidth h, renderHeight h)\<rparr>;
             st3 = setTarget (Some (patternFBO st2)) st2;
             st4 = st3\<lparr>gl := draw PatternPass None (gl st3)\<rparr>
         in st4\<lparr>display_uMap := Some (TargetTexture (patternFBO st4))\<rparr>)
      else
        (case customU st0 of
           None \<Rightarrow> st0
         | Some cu \<Rightarrow>
            (let st1 = st0\<lparr>customU := Some (cu
                          \<lparr>c_uImage := Some (TargetTexture (sceneFBO st0)),
                           c_uResolution := viewSize h,
                           c_uTime := timeRef st0 * animationSpeed props,
                           c_uSaturation := saturation props,
                           c_uBrightness := brightness props,
                           c_uContrast := contrast props,
                           c_uExposure := exposure props,
                           c_uDarkMode := (if darkMode props then 1.0 else 0.0),
                           c_uIntensity := shaderIntensity props,
                           c_uBaseTileSize := tileSize props\<rparr>)\<rparr>;
                 st2 = st1\<lparr>patternFBOSize := (renderWidth h, renderHeight h)\<rparr>;
                 st3 = setTarget (Some (patternFBO st2)) st2;
                 st4 = st3\<lparr>gl := draw CustomPass None (gl st3)\<rparr>
             in st4\<lparr>display_uMap := Some (TargetTexture (patternFBO st4))\<rparr>)))"

text \<open>The \<open>useFrame\<close> callback of Scene3DAscii.\<close>

definition frame3d :: "Scene3DAsciiProps \<Rightarrow> 'a hooks_scheme \<Rightarrow> state3d \<Rightarrow> state3d" where
  "frame3d props h st =
     (if shaderType props = Ascii \<and> (patternAtlas h = None \<or> altPatternAtlas h = None) then st
      else if shaderType props \<noteq> Ascii \<and> customU st = None then st
      else
        (let st1 = st\<lparr>timeRef := timeRef st + 0.05\<rparr>;
             prevTarget = renderTarget (gl st1);
             prevAutoClear = autoClear (gl st1);
             st2 = (if shaderType props = Ascii \<and> \<not> densityInitializedRef st1
                    then initDensityBlock st1 else st1);
             st3 = simulateBlock props h st2;
             st4 = captureBlock h st3;
             st5 = compositeBlock props h st4;
             st6 = presentBlock st5
         in restoreBlock prevTarget prevAutoClear st6))"

section \<open>Concrete scenes\<close>

text \<open>
  A Card3DAscii with painting enabled and the pointer over it at \<open>(0.5, 0.5)\<close>, and a
  CardAsciiPattern, both just mounted on a renderer the host left bound to a target of its
  own; \<open>hovering3d\<close> is the first after its first frame, drawn with the pointer at
  \<open>(0.4, 0.5)\<close>.
\<close>

definition hooksLoaded :: hooks where
  "hooksLoaded =
     \<lparr>viewSize = (300, 350), devicePixelRatio = Some 1,
      patternAtlas = Some (ImageTexture ''/patterns/pat-cards.png''),
      altPatternAtlas = Some (ImageTexture ''/patterns/blocky/pat-strip-blue.png'')\<rparr>"

definition hooks2dLoaded :: hooks2d where
  "hooks2dLoaded =
     \<lparr>viewSize = (300, 350), devicePixelRatio = Some 1,
      patternAtlas = Some (ImageTexture ''/patterns/pat3.png''),
      altPatternAtlas = Some (ImageTexture ''/patterns/pat7-colored.png''),
      imageTexture = Some (ImageTexture ''/images/card.jpg''), imageDimensions = (640, 480)\<rparr>"

definition hostRenderer :: glState where
  "hostRenderer =
     \<lparr>renderTarget = Some 9, autoClear = True, contents = (\<lambda>i. emptyTexture), passes = []\<rparr>"

definition paintProps :: Scene3DAsciiProps where
  "paintProps = defaultProps\<lparr>enablePainting := True, isCardHovered := True, mouseUV := (0.5, 0.5)\<rparr>"

definition mounted3d :: state3d where
  "mounted3d = mountScene3DAscii paintProps hooksLoaded hostRenderer 0"

definition firstHoverProps :: Scene3DAsciiProps where
  "firstHoverProps = paintProps\<lparr>mouseUV := (0.4, 0.5)\<rparr>"

definition hovering3d :: state3d where
  "hovering3d = frame3d firstHoverProps hooksLoaded mounted3d"

definition cardProps2d :: AsciiFluidSceneProps where
  "cardProps2d =
     \<lparr>tileSize = 8, saturation = 1.0, darkMode = False, imageUrl = ''/images/card.jpg'',
      enableInteractivity = True\<rparr>"

definition mounted2d :: state2d where
  "mounted2d = mountAsciiFluidScene cardProps2d hooks2dLoaded hostRenderer 0"

text \<open>
  The same card with painting enabled and the pointer away, and an atlas of four columns
  whose last column is empty.
\<close>

definition idleProps :: Scene3DAsciiProps where
  "idleProps = defaultProps\<lparr>enablePainting := True\<rparr>"

definition lightAtlas4 :: sampler2D where
  "lightAtlas4 = (\<lambda>uv. (0, 0, 0, if fst uv < 0.75 then 1 else 0))"

section \<open>Observations of a frame\<close>

text \<open>
  Names for what the statements below observe. First the pass a material draws and the
  passes a callback appended to the renderer's list.
\<close>

definition materialPass :: "fluidMaterial \<Rightarrow> passKind" where
  "materialPass m =
     (case m of SplatMaterial \<Rightarrow> SplatPass | AdvectionMaterial \<Rightarrow> AdvectionPass
      | FillMaterial \<Rightarrow> FillPass)"

definition newPasses :: "glState \<Rightarrow> glState \<Rightarrow> renderPass list" where
  "newPasses g g' = drop (length (passes g)) (passes g')"

text \<open>
  The conditions of the callbacks: a callback passes its early returns; the guard of the
  fluid block of Scene3DAscii holds; the pointer handling, once reached, splats (a previous
  position is recorded and the scaled displacement leaves the deadband).
\<close>

definition frameRuns3d :: "Scene3DAsciiProps \<Rightarrow> 'a hooks_scheme \<Rightarrow> state3d \<Rightarrow> bool" where
  "frameRuns3d props h st =
     (\<not> (shaderType props = Ascii \<and> (patternAtlas h = None \<or> altPatternAtlas h = None))
      \<and> \<not> (shaderType props \<noteq> Ascii \<and> customU st = None))"

definition frameRuns2d :: "hooks2d \<Rightarrow> bool" where
  "frameRuns2d h = (imageTexture h \<noteq> None \<and> patternAtlas h \<noteq> None \<and> altPatternAtlas h \<noteq> None)"

definition simulateGuard :: "Scene3DAsciiProps \<Rightarrow> bool" where
  "simulateGuard props =
     (shaderType props = Ascii \<and> enablePainting props \<and> isCardHovered props
      \<and> fst (mouseUV props) \<ge> 0 \<and> snd (mouseUV props) \<ge> 0)"

definition splatFires :: "vec2 \<Rightarrow> 'a fluidState_scheme \<Rightarrow> bool" where
  "splatFires mouse st =
     (isMouseInitRef st \<and>
      (\<bar>(fst mouse - fst (lastMouseRef st)) * 100\<bar> > 0.1
       \<or> \<bar>(snd mouse - snd (lastMouseRef st)) * 100\<bar> > 0.1))"

text \<open>
  The field a ping-pong pair currently holds (the texture of its read buffer), and the four
  buffers of the two pairs being distinct objects, as the constructor makes them.
\<close>

definition velocityField :: "'a fluidState_scheme \<Rightarrow> sampler2D" where
  "velocityField st = contents (gl st) (fbo_read (velocityFBO st))"

definition densityField :: "'a fluidState_scheme \<Rightarrow> sampler2D" where
  "densityField st = contents (gl st) (fbo_read (densityFBO st))"

definition buffersDistinct :: "'a fluidState_scheme \<Rightarrow> bool" where
  "buffersDistinct st =
     distinct [fbo_read (velocityFBO st), fbo_write (velocityFBO st),
               fbo_read (densityFBO st), fbo_write (densityFBO st)]"

text \<open>
  The state of a frame after the time step and the one-time density fill, and after the
  pointer handling: the fields the advection then reads.
\<close>

definition afterInit :: "Scene3DAsciiProps \<Rightarrow> state3d \<Rightarrow> state3d" where
  "afterInit props st =
     (let st1 = st\<lparr>timeRef := timeRef st + 0.05\<rparr>
      in if shaderType props = Ascii \<and> \<not> densityInitializedRef st1 then initDensityBlock st1
         else st1)"


definition afterPointer2d :: "AsciiFluidSceneProps \<Rightarrow> hooks2d \<Rightarrow> state2d \<Rightarrow> state2d" where
  "afterPointer2d props h st =
     (let st1 = st\<lparr>timeRef := timeRef st + 0.05\<rparr>
      in if enableInteractivity props \<and> isHoveredRef st1
         then pointerBlock (mouseRef st1) (viewSize h) st1 else st1)"


section \<open>Properties\<close>



lemma selectPatternIndex_range: "0 \<le> selectPatternIndex x \<and> selectPatternIndex x \<le> 5"
  by (simp add: selectPatternIndex_def glsl_clampi_def Let_def)

lemma selectPatternIndex_mono:
  assumes "x \<le> y"
  shows "selectPatternIndex x \<le> selectPatternIndex y"
proof -
  have fl: "\<lfloor>x * 5 * 0.8\<rfloor> \<le> \<lfloor>y * 5 * 0.8\<rfloor>"
    using assms by (intro floor_mono) simp
  have lo: "0 \<le> \<lfloor>y * 5 * 0.8\<rfloor>" if "\<not> y * 5 < 0.5"
    using that by (simp add: le_floor_iff)
  have hi: "\<lfloor>x * 5 * 0.8\<rfloor> \<le> 2" if "x * 5 < 3.5"
  proof -
    have "x * 5 * 0.8 < 3" using that by simp
    then have "\<lfloor>x * 5 * 0.8\<rfloor> < 3" by (simp add: floor_less_iff)
    then show ?thesis by simp
  qed
  show ?thesis
    using assms fl lo hi
    by (auto simp add: selectPatternIndex_def glsl_clampi_def Let_def min_def max_def)
qed




lemma swap_swap: "swap (swap d) = d"
  by (simp add: swap_def)

lemma swap_fields: "fbo_read (swap d) = fbo_write d \<and> fbo_write (swap d) = fbo_read d"
  by (simp add: swap_def)

lemma swap_iterate:
  "(swap ^^ k) d = (if even k then d else swap d)"
  by (induction k) (simp_all add: swap_swap)

subsection \<open>The blocks of the frame callbacks\<close>

lemma draw_simps:
  "renderTarget (draw k f g) = renderTarget g"
  "autoClear (draw k f g) = autoClear g"
  "passes (draw k f g) = passes g @ [(k, renderTarget g, autoClear g)]"
  by (simp_all add: draw_def)

lemma draw_contents:
  "contents (draw k None g) = contents g"
  "renderTarget g = Some t \<Longrightarrow> contents (draw k (Some f) g) = (contents g)(t := f)"
  by (simp_all add: draw_def split: option.splits)

lemma renderFluidScene_base:
  "timeRef (renderFluidScene st) = timeRef st"
  "lastMouseRef (renderFluidScene st) = lastMouseRef st"
  "isMouseInitRef (renderFluidScene st) = isMouseInitRef st"
  "velocityFBO (renderFluidScene st) = velocityFBO st"
  "densityFBO (renderFluidScene st) = densityFBO st"
  "patternFBO (renderFluidScene st) = patternFBO st"
  "patternFBOSize (renderFluidScene st) = patternFBOSize st"
  "splatU (renderFluidScene st) = splatU st"
  "advectionU (renderFluidScene st) = advectionU st"
  "fillUColor (renderFluidScene st) = fillUColor st"
  "fluidMeshMaterial (renderFluidScene st) = fluidMeshMaterial st"
  "display_uMap (renderFluidScene st) = display_uMap st"
  "fluidState.more (renderFluidScene st) = fluidState.more st"
  by (simp_all add: renderFluidScene_def split: fluidMaterial.splits)

lemma renderFluidScene_gl:
  "renderTarget (gl (renderFluidScene st)) = renderTarget (gl st)"
  "autoClear (gl (renderFluidScene st)) = autoClear (gl st)"
  "passes (gl (renderFluidScene st)) =
     passes (gl st) @ [(materialPass (fluidMeshMaterial st), renderTarget (gl st), autoClear (gl st))]"
  by (simp_all add: renderFluidScene_def materialPass_def draw_simps split: fluidMaterial.splits)

lemma advectBlock_passes:
  "passes (gl (advectBlock a b st)) =
     passes (gl st) @ [(AdvectionPass, Some (fbo_write (velocityFBO st)), autoClear (gl st)),
                       (AdvectionPass, Some (fbo_write (densityFBO st)), autoClear (gl st))]"
  by (simp add: advectBlock_def Let_def setTarget_def setRenderTarget_def renderFluidScene_base
      renderFluidScene_gl materialPass_def)

lemma advectBlock_base:
  "autoClear (gl (advectBlock a b st)) = autoClear (gl st)"
  "velocityFBO (advectBlock a b st) = swap (velocityFBO st)"
  "densityFBO (advectBlock a b st) = swap (densityFBO st)"
  "patternFBO (advectBlock a b st) = patternFBO st"
  "lastMouseRef (advectBlock a b st) = lastMouseRef st"
  "isMouseInitRef (advectBlock a b st) = isMouseInitRef st"
  "timeRef (advectBlock a b st) = timeRef st"
  "fluidState.more (advectBlock a b st) = fluidState.more st"
  by (simp_all add: advectBlock_def Let_def setTarget_def setRenderTarget_def renderFluidScene_base
      renderFluidScene_gl)








lemma advectBlock_distinct:
  "buffersDistinct (advectBlock a b st) = buffersDistinct st"
  by (auto simp add: buffersDistinct_def advectBlock_base swap_def)

lemma splatBlock_passes:
  "passes (gl (splatBlock m sz dx dy st)) =
     passes (gl st) @ [(SplatPass, Some (fbo_write (velocityFBO st)), autoClear (gl st)),
                       (SplatPass, Some (fbo_write (densityFBO st)), autoClear (gl st))]"
  by (simp add: splatBlock_def Let_def setTarget_def setRenderTarget_def renderFluidScene_base
      renderFluidScene_gl materialPass_def)

lemma splatBlock_base:
  "autoClear (gl (splatBlock m sz dx dy st)) = autoClear (gl st)"
  "velocityFBO (splatBlock m sz dx dy st) = swap (velocityFBO st)"
  "densityFBO (splatBlock m sz dx dy st) = swap (densityFBO st)"
  "patternFBO (splatBlock m sz dx dy st) = patternFBO st"
  "advectionU (splatBlock m sz dx dy st) = advectionU st"
  "timeRef (splatBlock m sz dx dy st) = timeRef st"
  "fluidState.more (splatBlock m sz dx dy st) = fluidState.more st"
  by (simp_all add: splatBlock_def Let_def setTarget_def setRenderTarget_def renderFluidScene_base
      renderFluidScene_gl)

lemma pointerBlock_passes:
  "passes (gl (pointerBlock m sz st)) =
     passes (gl st) @
       (if splatFires m st
        then [(SplatPass, Some (fbo_write (velocityFBO st)), autoClear (gl st)),
              (SplatPass, Some (fbo_write (densityFBO st)), autoClear (gl st))]
        else [])"
  by (simp add: pointerBlock_def splatFires_def Let_def splatBlock_passes)

lemma pointerBlock_base:
  "autoClear (gl (pointerBlock m sz st)) = autoClear (gl st)"
  "velocityFBO (pointerBlock m sz st) = (if splatFires m st then swap (velocityFBO st) else velocityFBO st)"
  "densityFBO (pointerBlock m sz st) = (if splatFires m st then swap (densityFBO st) else densityFBO st)"
  "patternFBO (pointerBlock m sz st) = patternFBO st"
  "advectionU (pointerBlock m sz st) = advectionU st"
  "timeRef (pointerBlock m sz st) = timeRef st"
  "fluidState.more (pointerBlock m sz st) = fluidState.more st"
  by (simp_all add: pointerBlock_def splatFires_def Let_def splatBlock_base)

lemma pointerBlock_distinct:
  "buffersDistinct (pointerBlock m sz st) = buffersDistinct st"
  by (auto simp add: buffersDistinct_def pointerBlock_base swap_def)

lemma pointerBlock_idle_fields:
  assumes "\<not> splatFires m st"
  shows "velocityField (pointerBlock m sz st) = velocityField st"
    and "densityField (pointerBlock m sz st) = densityField st"
  using assms
  by (simp_all add: pointerBlock_def splatFires_def Let_def velocityField_def densityField_def)

lemma splatFires_zero: "\<not> splatFires (lastMouseRef st) st"
  by (simp add: splatFires_def)

lemma renderFluidScene_ext:
  "sceneFBO (renderFluidScene st) = sceneFBO st"
  "sceneFBOSize (renderFluidScene st) = sceneFBOSize st"
  "densityInitializedRef (renderFluidScene st) = densityInitializedRef st"
  "asciiU (renderFluidScene st) = asciiU st"
  "customU (renderFluidScene st) = customU st"
  "mouseRef (renderFluidScene st2) = mouseRef st2"
  "isHoveredRef (renderFluidScene st2) = isHoveredRef st2"
  "patternU (renderFluidScene st2) = patternU st2"
  by (simp_all add: renderFluidScene_def split: fluidMaterial.splits)

lemma splatBlock_ext:
  "sceneFBO (splatBlock m sz dx dy st) = sceneFBO st"
  "sceneFBOSize (splatBlock m sz dx dy st) = sceneFBOSize st"
  "densityInitializedRef (splatBlock m sz dx dy st) = densityInitializedRef st"
  "asciiU (splatBlock m sz dx dy st) = asciiU st"
  "customU (splatBlock m sz dx dy st) = customU st"
  "mouseRef (splatBlock m sz dx dy st2) = mouseRef st2"
  "isHoveredRef (splatBlock m sz dx dy st2) = isHoveredRef st2"
  "patternU (splatBlock m sz dx dy st2) = patternU st2"
  by (simp_all add: splatBlock_def Let_def setTarget_def renderFluidScene_ext)

lemma pointerBlock_ext:
  "sceneFBO (pointerBlock m sz st) = sceneFBO st"
  "sceneFBOSize (pointerBlock m sz st) = sceneFBOSize st"
  "densityInitializedRef (pointerBlock m sz st) = densityInitializedRef st"
  "asciiU (pointerBlock m sz st) = asciiU st"
  "customU (pointerBlock m sz st) = customU st"
  "mouseRef (pointerBlock m sz st2) = mouseRef st2"
  "isHoveredRef (pointerBlock m sz st2) = isHoveredRef st2"
  "patternU (pointerBlock m sz st2) = patternU st2"
  by (simp_all add: pointerBlock_def Let_def splatBlock_ext)

lemma advectBlock_ext:
  "sceneFBO (advectBlock a b st) = sceneFBO st"
  "sceneFBOSize (advectBlock a b st) = sceneFBOSize st"
  "densityInitializedRef (advectBlock a b st) = densityInitializedRef st"
  "asciiU (advectBlock a b st) = asciiU st"
  "customU (advectBlock a b st) = customU st"
  "mouseRef (advectBlock a b st2) = mouseRef st2"
  "isHoveredRef (advectBlock a b st2) = isHoveredRef st2"
  "patternU (advectBlock a b st2) = patternU st2"
  by (simp_all add: advectBlock_def Let_def setTarget_def renderFluidScene_ext)

lemma initDensityBlock_passes:
  "passes (gl (initDensityBlock st)) =
     passes (gl st) @ [(FillPass, Some (fbo_write (densityFBO st)), autoClear (gl st)),
                       (FillPass, Some (fbo_read (densityFBO st)), autoClear (gl st))]"
  by (simp add: initDensityBlock_def Let_def setTarget_def setRenderTarget_def renderFluidScene_base
      renderFluidScene_gl materialPass_def swap_def)

lemma initDensityBlock_base:
  "autoClear (gl (initDensityBlock st)) = autoClear (gl st)"
  "velocityFBO (initDensityBlock st) = velocityFBO st"
  "densityFBO (initDensityBlock st) = densityFBO st"
  "patternFBO (initDensityBlock st) = patternFBO st"
  "sceneFBO (initDensityBlock st) = sceneFBO st"
  "advectionU (initDensityBlock st) = advectionU st"
  "lastMouseRef (initDensityBlock st) = lastMouseRef st"
  "isMouseInitRef (initDensityBlock st) = isMouseInitRef st"
  "timeRef (initDensityBlock st) = timeRef st"
  "asciiU (initDensityBlock st) = asciiU st"
  "customU (initDensityBlock st) = customU st"
  "densityInitializedRef (initDensityBlock st) = True"
  by (simp_all add: initDensityBlock_def Let_def setTarget_def setRenderTarget_def renderFluidScene_base
      renderFluidScene_gl renderFluidScene_ext swap_def)




lemma captureBlock_passes:
  "passes (gl (captureBlock h st)) = passes (gl st) @ [(ModelPass, Some (sceneFBO st), autoClear (gl st))]"
  by (simp add: captureBlock_def Let_def setTarget_def setRenderTarget_def draw_simps)

lemma captureBlock_base:
  "autoClear (gl (captureBlock h st)) = autoClear (gl st)"
  "contents (gl (captureBlock h st)) = contents (gl st)"
  "velocityFBO (captureBlock h st) = velocityFBO st"
  "densityFBO (captureBlock h st) = densityFBO st"
  "patternFBO (captureBlock h st) = patternFBO st"
  "sceneFBO (captureBlock h st) = sceneFBO st"
  "sceneFBOSize (captureBlock h st) = (fst (viewSize h) * 2, snd (viewSize h) * 2)"
  "timeRef (captureBlock h st) = timeRef st"
  "asciiU (captureBlock h st) = asciiU st"
  "customU (captureBlock h st) = customU st"
  by (simp_all add: captureBlock_def Let_def setTarget_def setRenderTarget_def draw_simps draw_contents)

lemma compositeBlock_passes:
  assumes "shaderType props = Ascii \<or> customU st \<noteq> None"
  shows "passes (gl (compositeBlock props h st)) =
     passes (gl st) @ [(if shaderType props = Ascii then PatternPass else CustomPass,
                        Some (patternFBO st), autoClear (gl st))]"
  using assms
  by (auto simp add: compositeBlock_def Let_def setTarget_def setRenderTarget_def draw_simps)

lemma compositeBlock_base:
  "autoClear (gl (compositeBlock props h st)) = autoClear (gl st)"
  "contents (gl (compositeBlock props h st)) = contents (gl st)"
  "velocityFBO (compositeBlock props h st) = velocityFBO st"
  "densityFBO (compositeBlock props h st) = densityFBO st"
  "patternFBO (compositeBlock props h st) = patternFBO st"
  "sceneFBO (compositeBlock props h st) = sceneFBO st"
  "sceneFBOSize (compositeBlock props h st) = sceneFBOSize st"
  by (simp_all add: compositeBlock_def Let_def setTarget_def setRenderTarget_def draw_simps
      draw_contents split: option.splits)

lemma compositeBlock_size:
  assumes "shaderType props = Ascii \<or> customU st \<noteq> None"
  shows "patternFBOSize (compositeBlock props h st) = (renderWidth h, renderHeight h)"
    and "display_uMap (compositeBlock props h st) = Some (TargetTexture (patternFBO st))"
  using assms
  by (auto simp add: compositeBlock_def Let_def setTarget_def setRenderTarget_def)

lemma presentBlock_passes:
  "passes (gl (presentBlock st)) = passes (gl st) @ [(DisplayPass, None, False)]"
  by (simp add: presentBlock_def Let_def setTarget_def setRenderTarget_def draw_simps)

lemma presentBlock_base:
  "contents (gl (presentBlock st)) = contents (gl st)"
  "velocityFBO (presentBlock st) = velocityFBO st"
  "densityFBO (presentBlock st) = densityFBO st"
  "patternFBO (presentBlock st) = patternFBO st"
  "patternFBOSize (presentBlock st) = patternFBOSize st"
  "sceneFBOSize (presentBlock st3) = sceneFBOSize st3"
  "asciiU (presentBlock st3) = asciiU st3"
  "patternU (presentBlock st2) = patternU st2"
  by (simp_all add: presentBlock_def Let_def setTarget_def setRenderTarget_def draw_simps draw_contents)

lemma restoreBlock_gl:
  "renderTarget (gl (restoreBlock t a st)) = t"
  "autoClear (gl (restoreBlock t a st)) = a"
  "passes (gl (restoreBlock t a st)) = passes (gl st)"
  "contents (gl (restoreBlock t a st)) = contents (gl st)"
  by (simp_all add: restoreBlock_def Let_def setTarget_def setRenderTarget_def)

lemma restoreBlock_base:
  "velocityFBO (restoreBlock t a st) = velocityFBO st"
  "densityFBO (restoreBlock t a st) = densityFBO st"
  "patternFBO (restoreBlock t a st) = patternFBO st"
  "patternFBOSize (restoreBlock t a st) = patternFBOSize st"
  "sceneFBOSize (restoreBlock t a st3) = sceneFBOSize st3"
  "asciiU (restoreBlock t a st3) = asciiU st3"
  "patternU (restoreBlock t a st2) = patternU st2"
  by (simp_all add: restoreBlock_def Let_def setTarget_def setRenderTarget_def)

lemma patternBlock2d_passes:
  "passes (gl (patternBlock2d h st)) = passes (gl st) @ [(PatternPass, Some (patternFBO st), autoClear (gl st))]"
  by (simp add: patternBlock2d_def Let_def setTarget_def setRenderTarget_def draw_simps)

lemma patternBlock2d_base:
  "autoClear (gl (patternBlock2d h st)) = autoClear (gl st)"
  "contents (gl (patternBlock2d h st)) = contents (gl st)"
  "velocityFBO (patternBlock2d h st) = velocityFBO st"
  "densityFBO (patternBlock2d h st) = densityFBO st"
  "patternFBO (patternBlock2d h st) = patternFBO st"
  "patternFBOSize (patternBlock2d h st) = (renderWidth h, renderHeight h)"
  by (simp_all add: patternBlock2d_def Let_def setTarget_def setRenderTarget_def draw_simps draw_contents)

lemma simulateBlock_passes:
  "passes (gl (simulateBlock props h st)) =
     passes (gl st) @
       (if simulateGuard props then
          (if splatFires (mouseUV props) st
           then [(SplatPass, Some (fbo_write (velocityFBO st)), autoClear (gl st)),
                 (SplatPass, Some (fbo_write (densityFBO st)), autoClear (gl st)),
                 (AdvectionPass, Some (fbo_read (velocityFBO st)), autoClear (gl st)),
                 (AdvectionPass, Some (fbo_read (densityFBO st)), autoClear (gl st))]
           else [(AdvectionPass, Some (fbo_write (velocityFBO st)), autoClear (gl st)),
                 (AdvectionPass, Some (fbo_write (densityFBO st)), autoClear (gl st))])
        else [])"
  by (simp add: simulateBlock_def simulateGuard_def Let_def advectBlock_passes pointerBlock_passes
      pointerBlock_base swap_def)

lemma simulateBlock_base:
  "autoClear (gl (simulateBlock props h st)) = autoClear (gl st)"
  "patternFBO (simulateBlock props h st) = patternFBO st"
  "sceneFBO (simulateBlock props h st) = sceneFBO st"
  "customU (simulateBlock props h st) = customU st"
  "asciiU (simulateBlock props h st) = asciiU st"
  "timeRef (simulateBlock props h st) = timeRef st"
  by (simp_all add: simulateBlock_def Let_def advectBlock_base advectBlock_ext pointerBlock_base
      pointerBlock_ext)


lemma frame3d_unfold:
  assumes "frameRuns3d props h st"
  shows "frame3d props h st =
     restoreBlock (renderTarget (gl st)) (autoClear (gl st))
       (presentBlock (compositeBlock props h (captureBlock h (simulateBlock props h (afterInit props st)))))"
  using assms by (auto simp add: frame3d_def frameRuns3d_def afterInit_def Let_def)

lemma frame3d_skip:
  assumes "\<not> frameRuns3d props h st"
  shows "frame3d props h st = st"
  using assms by (auto simp add: frame3d_def frameRuns3d_def)

lemma frame2d_unfold:
  assumes "frameRuns2d h"
  shows "frame2d props h st =
     restoreBlock (renderTarget (gl st)) (autoClear (gl st))
       (presentBlock ((patternBlock2d h (advectBlock 0.9 0.96 (afterPointer2d props h st)))
          \<lparr>display_uMap := Some (TargetTexture (patternFBO st))\<rparr>))"
  using assms
  by (auto simp add: frame2d_def frameRuns2d_def afterPointer2d_def Let_def patternBlock2d_base
      advectBlock_base pointerBlock_base)

lemma frame2d_skip:
  assumes "\<not> frameRuns2d h"
  shows "frame2d props h st = st"
  using assms by (auto simp add: frame2d_def frameRuns2d_def)

lemma afterInit_passes:
  "passes (gl (afterInit props st)) =
     passes (gl st) @
       (if shaderType props = Ascii \<and> \<not> densityInitializedRef st
        then [(FillPass, Some (fbo_write (densityFBO st)), autoClear (gl st)),
              (FillPass, Some (fbo_read (densityFBO st)), autoClear (gl st))]
        else [])"
  by (simp add: afterInit_def Let_def initDensityBlock_passes)

lemma afterInit_base:
  "autoClear (gl (afterInit props st)) = autoClear (gl st)"
  "velocityFBO (afterInit props st) = velocityFBO st"
  "densityFBO (afterInit props st) = densityFBO st"
  "patternFBO (afterInit props st) = patternFBO st"
  "sceneFBO (afterInit props st) = sceneFBO st"
  "advectionU (afterInit props st) = advectionU st"
  "lastMouseRef (afterInit props st) = lastMouseRef st"
  "isMouseInitRef (afterInit props st) = isMouseInitRef st"
  "timeRef (afterInit props st) = timeRef st + 0.05"
  "asciiU (afterInit props st) = asciiU st"
  "customU (afterInit props st) = customU st"
  by (simp_all add: afterInit_def Let_def initDensityBlock_base)

lemma afterInit_splatFires: "splatFires m (afterInit props st) = splatFires m st"
  by (simp add: splatFires_def afterInit_base)

lemma afterInit_distinct: "buffersDistinct (afterInit props st) = buffersDistinct st"
  by (simp add: buffersDistinct_def afterInit_base)

lemma frame3d_passes:
  assumes "frameRuns3d props h st"
  shows "passes (gl (frame3d props h st)) =
     passes (gl st) @
       (if shaderType props = Ascii \<and> \<not> densityInitializedRef st
        then [(FillPass, Some (fbo_write (densityFBO st)), autoClear (gl st)),
              (FillPass, Some (fbo_read (densityFBO st)), autoClear (gl st))]
        else []) @
       (if simulateGuard props then
          (if splatFires (mouseUV props) st
           then [(SplatPass, Some (fbo_write (velocityFBO st)), autoClear (gl st)),
                 (SplatPass, Some (fbo_write (densityFBO st)), autoClear (gl st)),
                 (AdvectionPass, Some (fbo_read (velocityFBO st)), autoClear (gl st)),
                 (AdvectionPass, Some (fbo_read (densityFBO st)), autoClear (gl st))]
           else [(AdvectionPass, Some (fbo_write (velocityFBO st)), autoClear (gl st)),
                 (AdvectionPass, Some (fbo_write (densityFBO st)), autoClear (gl st))])
        else []) @
       [(ModelPass, Some (sceneFBO st), autoClear (gl st)),
        (if shaderType props = Ascii then PatternPass else CustomPass, Some (patternFBO st),
         autoClear (gl st)),
        (DisplayPass, None, False)]"
proof -
  have c: "shaderType props = Ascii \<or>
           customU (captureBlock h (simulateBlock props h (afterInit props st))) \<noteq> None"
    using assms by (auto simp add: frameRuns3d_def captureBlock_base simulateBlock_base afterInit_base)
  show ?thesis
    by (simp add: frame3d_unfold [OF assms] restoreBlock_gl presentBlock_passes
        compositeBlock_passes [OF c] captureBlock_passes captureBlock_base simulateBlock_passes
        simulateBlock_base afterInit_passes afterInit_base afterInit_splatFires)
qed

lemma splatFires_timeRef: "splatFires m (st\<lparr>timeRef := t\<rparr>) = splatFires m st"
  by (simp add: splatFires_def)

lemma afterPointer2d_passes:
  "passes (gl (afterPointer2d props h st)) =
     passes (gl st) @
       (if enableInteractivity props \<and> isHoveredRef st \<and> splatFires (mouseRef st) st
        then [(SplatPass, Some (fbo_write (velocityFBO st)), autoClear (gl st)),
              (SplatPass, Some (fbo_write (densityFBO st)), autoClear (gl st))]
        else [])"
  by (simp add: afterPointer2d_def Let_def pointerBlock_passes splatFires_timeRef)

lemma afterPointer2d_base:
  "autoClear (gl (afterPointer2d props h st)) = autoClear (gl st)"
  "velocityFBO (afterPointer2d props h st) =
     (if enableInteractivity props \<and> isHoveredRef st \<and> splatFires (mouseRef st) st
      then swap (velocityFBO st) else velocityFBO st)"
  "densityFBO (afterPointer2d props h st) =
     (if enableInteractivity props \<and> isHoveredRef st \<and> splatFires (mouseRef st) st
      then swap (densityFBO st) else densityFBO st)"
  "patternFBO (afterPointer2d props h st) = patternFBO st"
  "advectionU (afterPointer2d props h st) = advectionU st"
  by (simp_all add: afterPointer2d_def Let_def pointerBlock_base splatFires_timeRef)

lemma afterPointer2d_distinct: "buffersDistinct (afterPointer2d props h st) = buffersDistinct st"
  by (auto simp add: buffersDistinct_def afterPointer2d_base swap_def)

lemma frame2d_passes:
  assumes "frameRuns2d h"
  shows "passes (gl (frame2d props h st)) =
     passes (gl st) @
       (if enableInteractivity props \<and> isHoveredRef st \<and> splatFires (mouseRef st) st
        then [(SplatPass, Some (fbo_write (velocityFBO st)), autoClear (gl st)),
              (SplatPass, Some (fbo_write (densityFBO st)), autoClear (gl st)),
              (AdvectionPass, Some (fbo_read (velocityFBO st)), autoClear (gl st)),
              (AdvectionPass, Some (fbo_read (densityFBO st)), autoClear (gl st))]
        else [(AdvectionPass, Some (fbo_write (velocityFBO st)), autoClear (gl st)),
              (AdvectionPass, Some (fbo_write (densityFBO st)), autoClear (gl st))]) @
       [(PatternPass, Some (patternFBO st), autoClear (gl st)),
        (DisplayPass, None, False)]"
  by (simp add: frame2d_unfold [OF assms] restoreBlock_gl presentBlock_passes
      patternBlock2d_passes patternBlock2d_base advectBlock_passes advectBlock_base
      afterPointer2d_passes afterPointer2d_base swap_def)

subsection \<open>The concrete scenes and the frames as a whole\<close>

lemma newPasses_append: "passes g' = passes g @ xs \<Longrightarrow> newPasses g g' = xs"
  by (simp add: newPasses_def)

lemma newPasses_same: "newPasses g g = []"
  by (simp add: newPasses_def)

lemma frame3d_newPasses:
  "newPasses (gl st) (gl (frame3d props h st)) =
     (if frameRuns3d props h st then
       (if shaderType props = Ascii \<and> \<not> densityInitializedRef st
        then [(FillPass, Some (fbo_write (densityFBO st)), autoClear (gl st)),
              (FillPass, Some (fbo_read (densityFBO st)), autoClear (gl st))]
        else []) @
       (if simulateGuard props then
          (if splatFires (mouseUV props) st
           then [(SplatPass, Some (fbo_write (velocityFBO st)), autoClear (gl st)),
                 (SplatPass, Some (fbo_write (densityFBO st)), autoClear (gl st)),
                 (AdvectionPass, Some (fbo_read (velocityFBO st)), autoClear (gl st)),
                 (AdvectionPass, Some (fbo_read (densityFBO st)), autoClear (gl st))]
           else [(AdvectionPass, Some (fbo_write (velocityFBO st)), autoClear (gl st)),
                 (AdvectionPass, Some (fbo_write (densityFBO st)), autoClear (gl st))])
        else []) @
       [(ModelPass, Some (sceneFBO st), autoClear (gl st)),
        (if shaderType props = Ascii then PatternPass else CustomPass, Some (patternFBO st),
         autoClear (gl st)),
        (DisplayPass, None, False)]
      else [])"
proof (cases "frameRuns3d props h st")
  case True
  then show ?thesis
    using newPasses_append [OF frame3d_passes [OF True]] by simp
next
  case False
  then show ?thesis by (simp add: frame3d_skip newPasses_same)
qed

lemma frame2d_newPasses:
  "newPasses (gl st) (gl (frame2d props h st)) =
     (if frameRuns2d h then
       (if enableInteractivity props \<and> isHoveredRef st \<and> splatFires (mouseRef st) st
        then [(SplatPass, Some (fbo_write (velocityFBO st)), autoClear (gl st)),
              (SplatPass, Some (fbo_write (densityFBO st)), autoClear (gl st)),
              (AdvectionPass, Some (fbo_read (velocityFBO st)), autoClear (gl st)),
              (AdvectionPass, Some (fbo_read (densityFBO st)), autoClear (gl st))]
        else [(AdvectionPass, Some (fbo_write (velocityFBO st)), autoClear (gl st)),
              (AdvectionPass, Some (fbo_write (densityFBO st)), autoClear (gl st))]) @
       [(PatternPass, Some (patternFBO st), autoClear (gl st)),
        (DisplayPass, None, False)]
      else [])"
proof (cases "frameRuns2d h")
  case True
  then show ?thesis
    using newPasses_append [OF frame2d_passes [OF True]] by simp
next
  case False
  then show ?thesis by (simp add: frame2d_skip newPasses_same)
qed

lemma frame3d_restores:
  "renderTarget (gl (frame3d props h st)) = renderTarget (gl st)"
  "autoClear (gl (frame3d props h st)) = autoClear (gl st)"
  by (cases "frameRuns3d props h st"; simp add: frame3d_unfold frame3d_skip restoreBlock_gl)+

lemma frame2d_restores:
  "renderTarget (gl (frame2d props h st)) = renderTarget (gl st)"
  "autoClear (gl (frame2d props h st)) = autoClear (gl st)"
  by (cases "frameRuns2d h"; simp add: frame2d_unfold frame2d_skip restoreBlock_gl)+

lemma mounted3d_fields:
  "renderTarget (gl mounted3d) = Some 9"
  "autoClear (gl mounted3d) = True"
  "passes (gl mounted3d) = []"
  "velocityFBO mounted3d = \<lparr>fbo_read = 1, fbo_write = 2\<rparr>"
  "densityFBO mounted3d = \<lparr>fbo_read = 3, fbo_write = 4\<rparr>"
  "sceneFBO mounted3d = 0"
  "patternFBO mounted3d = 5"
  "densityInitializedRef mounted3d = False"
  "isMouseInitRef mounted3d = False"
  "lastMouseRef mounted3d = (-1, -1)"
  "customU mounted3d = None"
  by (simp_all add: mounted3d_def mountScene3DAscii_def newDoubleFBO_def newRenderTarget_def
      hostRenderer_def newCustomShaderMaterial_def paintProps_def defaultProps_def)

lemma paintProps_fields:
  "shaderType paintProps = Ascii" "simulateGuard paintProps" "mouseUV paintProps = (0.5, 0.5)"
  by (simp_all add: paintProps_def defaultProps_def simulateGuard_def)

lemma runs_mounted3d: "frameRuns3d paintProps hooksLoaded mounted3d"
  "frameRuns3d paintProps hooksLoaded hovering3d"
  by (simp_all add: frameRuns3d_def paintProps_fields hooksLoaded_def)


lemma post_pointer3d:
  "isMouseInitRef (restoreBlock t a (presentBlock (compositeBlock props h (captureBlock h st)))) = isMouseInitRef st"
  "lastMouseRef (restoreBlock t a (presentBlock (compositeBlock props h (captureBlock h st)))) = lastMouseRef st"
  "densityInitializedRef (restoreBlock t a (presentBlock (compositeBlock props h (captureBlock h st)))) = densityInitializedRef st"
  "velocityFBO (restoreBlock t a (presentBlock (compositeBlock props h (captureBlock h st)))) = velocityFBO st"
  "densityFBO (restoreBlock t a (presentBlock (compositeBlock props h (captureBlock h st)))) = densityFBO st"
  "sceneFBO (restoreBlock t a (presentBlock (compositeBlock props h (captureBlock h st)))) = sceneFBO st"
  "patternFBO (restoreBlock t a (presentBlock (compositeBlock props h (captureBlock h st)))) = patternFBO st"
  by (simp_all add: restoreBlock_def presentBlock_def compositeBlock_def captureBlock_def Let_def
      setTarget_def split: option.splits)

lemma composite_customU_ascii:
  "shaderType props = Ascii \<Longrightarrow>
     customU (restoreBlock t a (presentBlock (compositeBlock props h (captureBlock h st)))) = customU st"
  by (simp add: restoreBlock_def presentBlock_def compositeBlock_def captureBlock_def Let_def
      setTarget_def)

lemma simulateBlock_pointer:
  "simulateGuard props \<Longrightarrow> isMouseInitRef (simulateBlock props h st) = True"
  "simulateGuard props \<Longrightarrow> lastMouseRef (simulateBlock props h st) = mouseUV props"
  "densityInitializedRef (simulateBlock props h st) = densityInitializedRef st"
  "simulateGuard props \<Longrightarrow> \<not> splatFires (mouseUV props) st \<Longrightarrow>
     velocityFBO (simulateBlock props h st) = swap (velocityFBO st)"
  "simulateGuard props \<Longrightarrow> \<not> splatFires (mouseUV props) st \<Longrightarrow>
     densityFBO (simulateBlock props h st) = swap (densityFBO st)"
  by (simp_all add: simulateBlock_def simulateGuard_def Let_def advectBlock_base advectBlock_ext
      pointerBlock_base pointerBlock_ext)
    (simp_all add: pointerBlock_def Let_def splatBlock_def setTarget_def renderFluidScene_base)


lemma afterInit_initialized:
  "densityInitializedRef (afterInit props st) = (shaderType props = Ascii \<or> densityInitializedRef st)"
  by (auto simp add: afterInit_def Let_def initDensityBlock_base)

lemma firstHover_fields:
  "shaderType firstHoverProps = Ascii"
  "simulateGuard firstHoverProps"
  "mouseUV firstHoverProps = (0.4, 0.5)"
  "frameRuns3d firstHoverProps hooksLoaded mounted3d"
  by (simp_all add: firstHoverProps_def paintProps_def defaultProps_def simulateGuard_def
      frameRuns3d_def hooksLoaded_def)

lemma hovering3d_fields:
  "renderTarget (gl hovering3d) = Some 9"
  "autoClear (gl hovering3d) = True"
  "velocityFBO hovering3d = \<lparr>fbo_read = 2, fbo_write = 1\<rparr>"
  "densityFBO hovering3d = \<lparr>fbo_read = 4, fbo_write = 3\<rparr>"
  "sceneFBO hovering3d = 0"
  "patternFBO hovering3d = 5"
  "densityInitializedRef hovering3d = True"
  "isMouseInitRef hovering3d = True"
  "lastMouseRef hovering3d = (0.4, 0.5)"
  "customU hovering3d = None"
proof -
  let ?p = firstHoverProps
  have n: "\<not> splatFires (mouseUV ?p) (afterInit ?p mounted3d)"
    by (simp add: afterInit_splatFires) (simp add: splatFires_def mounted3d_fields)
  note u = frame3d_unfold [OF firstHover_fields(4)]
  show "renderTarget (gl hovering3d) = Some 9" "autoClear (gl hovering3d) = True"
    by (simp_all add: hovering3d_def frame3d_restores mounted3d_fields)
  show "velocityFBO hovering3d = \<lparr>fbo_read = 2, fbo_write = 1\<rparr>"
    by (simp add: hovering3d_def u post_pointer3d
        simulateBlock_pointer(4) [OF firstHover_fields(2) n] afterInit_base mounted3d_fields
        swap_def)
  show "densityFBO hovering3d = \<lparr>fbo_read = 4, fbo_write = 3\<rparr>"
    by (simp add: hovering3d_def u post_pointer3d
        simulateBlock_pointer(5) [OF firstHover_fields(2) n] afterInit_base mounted3d_fields
        swap_def)
  show "sceneFBO hovering3d = 0" "patternFBO hovering3d = 5"
    by (simp_all add: hovering3d_def u post_pointer3d simulateBlock_base afterInit_base
        mounted3d_fields)
  show "densityInitializedRef hovering3d = True"
    by (simp add: hovering3d_def u post_pointer3d simulateBlock_pointer(3)
        afterInit_initialized firstHover_fields(1))
  show "isMouseInitRef hovering3d = True"
    by (simp add: hovering3d_def u post_pointer3d
        simulateBlock_pointer(1) [OF firstHover_fields(2)])
  show "lastMouseRef hovering3d = (0.4, 0.5)"
    using simulateBlock_pointer(2) [OF firstHover_fields(2), of hooksLoaded "afterInit ?p mounted3d"]
    by (simp add: hovering3d_def u post_pointer3d firstHover_fields(3))
  show "customU hovering3d = None"
    by (simp add: hovering3d_def u composite_customU_ascii [OF firstHover_fields(1)]
        simulateBlock_base afterInit_base mounted3d_fields)
qed

lemma splatFires_hovering3d: "splatFires (0.5, 0.5) hovering3d"
  by (simp add: splatFires_def hovering3d_fields)










lemma idleProps_fields:
  "shaderType idleProps = Ascii" "\<not> simulateGuard idleProps"
  "frameRuns3d idleProps hooksLoaded mounted3d"
  by (simp_all add: idleProps_def defaultProps_def simulateGuard_def frameRuns3d_def hooksLoaded_def)




lemma needsFallback_iff:
  "regularNeedsFallback (getColorForIntensity u patternIndex a False oc pc)
     \<longleftrightarrow> \<not> uDarkMode u > 0.5 \<and> a < 0.001"
  by (simp add: getColorForIntensity_def regularNeedsFallback_def vec3_of_def Let_def)

lemma compositeBlock_ascii:
  assumes "shaderType props = Ascii"
  shows "uBaseTileSize (asciiU (compositeBlock props h st)) = tileSize props"
    and "uTime (asciiU (compositeBlock props h st)) = timeRef st * animationSpeed props"
  using assms by (simp_all add: compositeBlock_def Let_def setTarget_def)

lemma compositeBlock_custom:
  assumes "shaderType props \<noteq> Ascii"
  shows "map_option c_uBaseTileSize (customU (compositeBlock props h st)) =
           map_option (\<lambda>cu. tileSize props) (customU st)"
  using assms by (simp add: compositeBlock_def Let_def setTarget_def split: option.splits)

lemma post_ext3d:
  "asciiU (restoreBlock t a (presentBlock st)) = asciiU st"
  "customU (restoreBlock t a (presentBlock st)) = customU st"
  by (simp_all add: restoreBlock_def presentBlock_def Let_def setTarget_def)

lemma frame3d_ascii_uniforms:
  assumes "frameRuns3d props h st" "shaderType props = Ascii"
  shows "uBaseTileSize (asciiU (frame3d props h st)) = tileSize props"
    and "uTime (asciiU (frame3d props h st)) = (timeRef st + 0.05) * animationSpeed props"
  by (simp_all add: frame3d_unfold [OF assms(1)] post_ext3d compositeBlock_ascii [OF assms(2)]
      captureBlock_base simulateBlock_base afterInit_base)

lemma frame3d_custom_uniforms:
  assumes "frameRuns3d props h st" "shaderType props \<noteq> Ascii"
  shows "map_option c_uBaseTileSize (customU (frame3d props h st)) = Some (tileSize props)"
proof -
  have "customU st \<noteq> None" using assms by (simp add: frameRuns3d_def)
  then obtain cu where "customU st = Some cu" by blast
  then show ?thesis
    by (simp add: frame3d_unfold [OF assms(1)] post_ext3d compositeBlock_custom [OF assms(2)]
        captureBlock_base simulateBlock_base afterInit_base)
qed

lemma frame2d_tileSize:
  "uBaseTileSize (patternU (frame2d props h st)) = uBaseTileSize (patternU st)"
proof (cases "frameRuns2d h")
  case True
  have p: "uBaseTileSize (patternU (patternBlock2d h s)) = uBaseTileSize (patternU s)" for s
    by (simp add: patternBlock2d_def Let_def setTarget_def)
  have q: "patternU (afterPointer2d props h st) = patternU st"
    by (simp add: afterPointer2d_def Let_def pointerBlock_ext)
  show ?thesis
    by (simp add: frame2d_unfold [OF True] restoreBlock_base presentBlock_base p advectBlock_ext q)
next
  case False
  then show ?thesis by (simp add: frame2d_skip)
qed

lemma tilePos_None: "tilePos u fragCoord = None \<longleftrightarrow> uBaseTileSize u = 0"
  by (simp add: tilePos_def glsl_div_def Let_def)

lemma frame3d_ignores_luminance_props:
  "frame3d (props\<lparr>luminanceOffset := off, invertLuminance := flag\<rparr>) h st = frame3d props h st"
proof -
  let ?p = "props\<lparr>luminanceOffset := off, invertLuminance := flag\<rparr>"
  have s: "simulateBlock ?p h s = simulateBlock props h s" for s
    by (simp add: simulateBlock_def)
  have c: "compositeBlock ?p h s = compositeBlock props h s" for s
    by (simp add: compositeBlock_def Let_def split: option.splits)
  have r: "frameRuns3d ?p h st = frameRuns3d props h st"
    by (simp add: frameRuns3d_def)
  have a: "afterInit ?p st = afterInit props st"
    by (simp add: afterInit_def)
  show ?thesis
  proof (cases "frameRuns3d props h st")
    case True
    then show ?thesis using r by (simp add: frame3d_unfold s c a)
  next
    case False
    then show ?thesis using r by (simp add: frame3d_skip)
  qed
qed

lemma simulateBlock_distinct: "buffersDistinct (simulateBlock props h st) = buffersDistinct st"
  by (simp add: simulateBlock_def Let_def advectBlock_distinct pointerBlock_distinct)

lemma buffersDistinct_cong:
  "velocityFBO a = velocityFBO b \<Longrightarrow> densityFBO a = densityFBO b \<Longrightarrow>
     buffersDistinct a = buffersDistinct b"
  by (simp add: buffersDistinct_def)

lemma frame3d_distinct: "buffersDistinct (frame3d props h st) = buffersDistinct st"
proof (cases "frameRuns3d props h st")
  case True
  have "buffersDistinct (frame3d props h st) =
          buffersDistinct (simulateBlock props h (afterInit props st))"
    unfolding frame3d_unfold [OF True]
    by (rule buffersDistinct_cong) (simp_all add: post_pointer3d)
  then show ?thesis
    by (simp add: simulateBlock_distinct afterInit_distinct)
next
  case False
  then show ?thesis by (simp add: frame3d_skip)
qed

lemma frame2d_distinct: "buffersDistinct (frame2d props h st) = buffersDistinct st"
proof (cases "frameRuns2d h")
  case True
  have "buffersDistinct (frame2d props h st) =
          buffersDistinct (advectBlock 0.9 0.96 (afterPointer2d props h st))"
    unfolding frame2d_unfold [OF True]
    by (rule buffersDistinct_cong)
      (simp_all add: restoreBlock_base presentBlock_base patternBlock2d_base)
  then show ?thesis
    by (simp add: advectBlock_distinct afterPointer2d_distinct)
next
  case False
  then show ?thesis by (simp add: frame2d_skip)
qed

lemma mount_distinct:
  "buffersDistinct (mountScene3DAscii props h g n)"
  "buffersDistinct (mountAsciiFluidScene props2 h2 g n)"
  by (simp_all add: buffersDistinct_def mountScene3DAscii_def mountAsciiFluidScene_def
      newDoubleFBO_def newRenderTarget_def)

subsection \<open>Claim C1\<close>

text \<open>
  C1. The pattern-index selection always returns an integer in \<open>[0, 5]\<close> and is monotonic
  non-decreasing in its argument \<open>o - l\<close>, the inverted luminance, for every offset \<open>o\<close> and
  luminance \<open>l\<close>; with the offset of the shader, the index does not increase when the
  luminance grows.
\<close>

theorem C1_pattern_index_range_and_monotone:
  "0 \<le> selectPatternIndex (oa - la) \<and> selectPatternIndex (oa - la) \<le> 5
   \<and> (oa - la \<le> ob - lb \<longrightarrow> selectPatternIndex (oa - la) \<le> selectPatternIndex (ob - lb))
   \<and> (la \<le> lb \<longrightarrow> selectPatternIndex (invertLum lb) \<le> selectPatternIndex (invertLum la))"
  using selectPatternIndex_range [of "oa - la"]
    selectPatternIndex_mono [of "oa - la" "ob - lb"]
    selectPatternIndex_mono [of "invertLum lb" "invertLum la"]
  by (simp add: invertLum_def)

theorem C1_witness:
  "(0.85 - 0.75 :: real) \<le> 0.85 - 0 \<and> (0 :: real) \<le> 0.75
   \<and> selectPatternIndex (0.85 - 0.75) = 1 \<and> selectPatternIndex (0.85 - 0) = 4
   \<and> selectPatternIndex (0.85 - 0.75) \<le> selectPatternIndex (0.85 - 0)
   \<and> selectPatternIndex (invertLum 0.75) \<le> selectPatternIndex (invertLum 0)"
  using C1_pattern_index_range_and_monotone [of "0.85" "0.75" "0.85" 0]
  by (simp add: selectPatternIndex_def glsl_clampi_def invertLum_def)

subsection \<open>Claim C2\<close>


subsection \<open>Claim C3\<close>




subsection \<open>Claim C4\<close>

text \<open>
  C4 as the code has it. A frame of Scene3DAscii that passes its early returns draws, in
  this order: the one-time density fill (first pattern frame only), then SIMULATE (the
  splats, only beyond the deadband, and the two advections; only for the pattern effect with
  painting enabled and the pointer over the card at non-negative coordinates), then CAPTURE
  (the model scene into the scene buffer, sized 2 x the logical resolution), then
  COMPOSITE (the pattern pass or the filter's pass into the pattern buffer, sized
  2 x logical resolution x device pixel ratio, rounded), then PRESENT (the display pass onto
  the visible surface with \<open>autoClear\<close> off). With an alternate filter selected nothing
  is simulated: the frame is CAPTURE, COMPOSITE, PRESENT.
\<close>

theorem C4_pass_order:
  "(frameRuns3d props h st \<longrightarrow>
     newPasses (gl st) (gl (frame3d props h st)) =
       (if shaderType props = Ascii \<and> \<not> densityInitializedRef st
        then [(FillPass, Some (fbo_write (densityFBO st)), autoClear (gl st)),
              (FillPass, Some (fbo_read (densityFBO st)), autoClear (gl st))]
        else []) @
       (if simulateGuard props then
          (if splatFires (mouseUV props) st
           then [(SplatPass, Some (fbo_write (velocityFBO st)), autoClear (gl st)),
                 (SplatPass, Some (fbo_write (densityFBO st)), autoClear (gl st)),
                 (AdvectionPass, Some (fbo_read (velocityFBO st)), autoClear (gl st)),
                 (AdvectionPass, Some (fbo_read (densityFBO st)), autoClear (gl st))]
           else [(AdvectionPass, Some (fbo_write (velocityFBO st)), autoClear (gl st)),
                 (AdvectionPass, Some (fbo_write (densityFBO st)), autoClear (gl st))])
        else []) @
       [(ModelPass, Some (sceneFBO st), autoClear (gl st)),
        (if shaderType props = Ascii then PatternPass else CustomPass, Some (patternFBO st),
         autoClear (gl st)),
        (DisplayPass, None, False)]
     \<and> patternFBOSize (frame3d props h st) =
         (js_round (fst (viewSize h) * 2 * pixelRatioOf h), js_round (snd (viewSize h) * 2 * pixelRatioOf h))
     \<and> sceneFBOSize (frame3d props h st) = (fst (viewSize h) * 2, snd (viewSize h) * 2))
   \<and> (frameRuns3d props h st \<and> shaderType props \<noteq> Ascii \<longrightarrow>
        newPasses (gl st) (gl (frame3d props h st)) =
          [(ModelPass, Some (sceneFBO st), autoClear (gl st)),
           (CustomPass, Some (patternFBO st), autoClear (gl st)),
           (DisplayPass, None, False)])
   \<and> simulateGuard props =
       (shaderType props = Ascii \<and> enablePainting props \<and> isCardHovered props
        \<and> fst (mouseUV props) \<ge> 0 \<and> snd (mouseUV props) \<ge> 0)"
proof -
  have sz: "patternFBOSize (frame3d props h st) =
         (js_round (fst (viewSize h) * 2 * pixelRatioOf h), js_round (snd (viewSize h) * 2 * pixelRatioOf h))
     \<and> sceneFBOSize (frame3d props h st) = (fst (viewSize h) * 2, snd (viewSize h) * 2)"
    if r: "frameRuns3d props h st"
  proof -
    have c: "shaderType props = Ascii \<or>
           customU (captureBlock h (simulateBlock props h (afterInit props st))) \<noteq> None"
      using r by (auto simp add: frameRuns3d_def captureBlock_base simulateBlock_base afterInit_base)
    show ?thesis
      by (simp add: frame3d_unfold [OF r] restoreBlock_base presentBlock_base
          compositeBlock_size [OF c] compositeBlock_base captureBlock_base renderWidth_def
          renderHeight_def)
  qed
  show ?thesis
    using sz by (simp add: frame3d_newPasses simulateGuard_def)
qed

text \<open>The theorem at a frame that splats, and its hypothesis there.\<close>

theorem C4_witness:
  "frameRuns3d paintProps hooksLoaded hovering3d
   \<and> newPasses (gl hovering3d) (gl (frame3d paintProps hooksLoaded hovering3d)) =
       [(SplatPass, Some 1, True), (SplatPass, Some 3, True),
        (AdvectionPass, Some 2, True), (AdvectionPass, Some 4, True),
        (ModelPass, Some 0, True), (PatternPass, Some 5, True), (DisplayPass, None, False)]
   \<and> patternFBOSize (frame3d paintProps hooksLoaded hovering3d) = (600, 700)"
  using C4_pass_order [of paintProps hooksLoaded hovering3d] runs_mounted3d(2) splatFires_hovering3d
  by (simp add: paintProps_fields hovering3d_fields hooksLoaded_def pixelRatioOf_def js_round_def)

text \<open>
  The order of the claim, CAPTURE before SIMULATE, fails on the first hovered frame of a
  mounted scene: both advections are drawn before the model scene.
\<close>

theorem C4_counterexample:
  "map fst (newPasses (gl mounted3d) (gl (frame3d paintProps hooksLoaded mounted3d))) =
     [FillPass, FillPass, AdvectionPass, AdvectionPass, ModelPass, PatternPass, DisplayPass]"
  using runs_mounted3d(1)
  by (simp add: frame3d_newPasses paintProps_fields mounted3d_fields splatFires_def)

subsection \<open>Claim C5\<close>

text \<open>
  C5 as the code has it. Where the regular-pattern colour comes out pure white (all channels
  at least 0.999), the compositor re-samples the regular atlas at column \<open>columns - 2\<close> for
  pattern indices up to 2 and \<open>columns - 3\<close> for higher ones, and substitutes pure white if
  that sample is empty too (alpha below 0.001), else the light grey \<open>(0.925, 0.925, 0.925)\<close>.
\<close>

theorem C5_regular_fallback:
  "(regularNeedsFallback
      (getColorForIntensity u patternIndex
         (alpha (samplePatternAtlas atlas (uPatternAtlasColumns u)
                   (regularAtlasIndex (uPatternAtlasColumns u) patternIndex) patternUV))
         False originalCol
         (samplePatternAtlas atlas (uPatternAtlasColumns u)
            (regularAtlasIndex (uPatternAtlasColumns u) patternIndex) patternUV))
    \<longrightarrow> regularColorOf u atlas patternIndex patternUV originalCol =
         (if alpha (samplePatternAtlas atlas (uPatternAtlasColumns u)
                      (uPatternAtlasColumns u - (if patternIndex \<le> 2 then 2 else 3)) patternUV) < 0.001
          then (1, 1, 1) else (0.925, 0.925, 0.925)))
   \<and> regularNeedsFallback (r, g, b) = (r \<ge> 0.999 \<and> g \<ge> 0.999 \<and> b \<ge> 0.999)"
proof -
  have thr: "regularNeedsFallback (r, g, b) = (r \<ge> 0.999 \<and> g \<ge> 0.999 \<and> b \<ge> 0.999)"
    by (simp add: regularNeedsFallback_def)
  have fb: "regularColorOf u atlas patternIndex patternUV originalCol =
         (if alpha (samplePatternAtlas atlas (uPatternAtlasColumns u)
                      (uPatternAtlasColumns u - (if patternIndex \<le> 2 then 2 else 3)) patternUV) < 0.001
          then (1, 1, 1) else (0.925, 0.925, 0.925))"
    if "regularNeedsFallback
      (getColorForIntensity u patternIndex
         (alpha (samplePatternAtlas atlas (uPatternAtlasColumns u)
                   (regularAtlasIndex (uPatternAtlasColumns u) patternIndex) patternUV))
         False originalCol
         (samplePatternAtlas atlas (uPatternAtlasColumns u)
            (regularAtlasIndex (uPatternAtlasColumns u) patternIndex) patternUV))"
    using that
    by (simp add: regularColorOf_def applyRegularFallback_def regularFallbackPattern_def
        needsFallback_iff Let_def)
  show ?thesis using thr fb by blast
qed

text \<open>The theorem at an atlas whose last column is empty and whose other columns are opaque.\<close>

theorem C5_witness:
  "regularNeedsFallback
      (getColorForIntensity (newAsciiMaterial defaultProps hooksLoaded) 0
         (alpha (samplePatternAtlas lightAtlas4 4 3 (0, 0))) False (0.5, 0.5, 0.5)
         (samplePatternAtlas lightAtlas4 4 3 (0, 0)))
   \<and> \<not> alpha (samplePatternAtlas lightAtlas4 4 2 (0, 0)) < 0.001
   \<and> regularColorOf (newAsciiMaterial defaultProps hooksLoaded) lightAtlas4 0 (0, 0) (0.5, 0.5, 0.5)
       = (0.925, 0.925, 0.925)"
  using C5_regular_fallback [of "newAsciiMaterial defaultProps hooksLoaded" 0 lightAtlas4 "(0, 0)" "(0.5, 0.5, 0.5)"]
  by (simp add: needsFallback_iff newAsciiMaterial_def defaultProps_def lightAtlas4_def
      regularAtlasIndex_def samplePatternAtlas_def alpha_def Let_def)

text \<open>
  The claim has the two substitutes the other way round: on an atlas that is empty
  everywhere the fallback sample is empty and the tile becomes pure white, not a light grey;
  where the fallback sample is opaque the tile becomes the light grey \<open>0.925\<close>, the darker of
  the two.
\<close>

theorem C5_counterexample:
  "regularNeedsFallback
      (getColorForIntensity (newAsciiMaterial defaultProps hooksLoaded) 0
         (alpha (samplePatternAtlas emptyTexture 4 3 (0, 0))) False (0.5, 0.5, 0.5)
         (samplePatternAtlas emptyTexture 4 3 (0, 0)))
   \<and> alpha (regularFallbackPattern (newAsciiMaterial defaultProps hooksLoaded) emptyTexture 0 (0, 0)) < 0.001
   \<and> regularColorOf (newAsciiMaterial defaultProps hooksLoaded) emptyTexture 0 (0, 0) (0.5, 0.5, 0.5)
       = (1, 1, 1)
   \<and> \<not> alpha (regularFallbackPattern (newAsciiMaterial defaultProps hooksLoaded) lightAtlas4 0 (0, 0)) < 0.001
   \<and> regularColorOf (newAsciiMaterial defaultProps hooksLoaded) lightAtlas4 0 (0, 0) (0.5, 0.5, 0.5)
       = (0.925, 0.925, 0.925)"
  by (simp add: regularColorOf_def newAsciiMaterial_def defaultProps_def
      emptyTexture_def lightAtlas4_def regularAtlasIndex_def samplePatternAtlas_def alpha_def
      getColorForIntensity_def applyRegularFallback_def regularNeedsFallback_def
      regularFallbackPattern_def vec3_of_def Let_def)

subsection \<open>Claim C6\<close>

text \<open>
  C6 fails on the code: the frame callback never reads the props \<open>luminanceOffset\<close> and
  \<open>invertLuminance\<close>, and the shader subtracts from the constant 0.85. A frame is the same
  whatever the two props are; for a mid-grey tile the index is 2 with the offset prop at
  0.5 as with the default, where the offset 0.5 would give \<open>0.5 - 0.5\<close> and index 0.
\<close>

theorem C6_luminance_options_ignored:
  "frame3d (props\<lparr>luminanceOffset := off, invertLuminance := flag\<rparr>) h st = frame3d props h st
   \<and> patternIndexOfTile
        (asciiU (frame3d (defaultProps\<lparr>animationSpeed := 0, luminanceOffset := 0.5\<rparr>) hooksLoaded mounted3d))
        (0, 0) (0.5, 0.5, 0.5) = 2
   \<and> patternIndexOfTile
        (asciiU (frame3d (defaultProps\<lparr>animationSpeed := 0\<rparr>) hooksLoaded mounted3d))
        (0, 0) (0.5, 0.5, 0.5) = 2
   \<and> selectPatternIndex (0.5 - 0.5) = 0"
proof -
  have r: "frameRuns3d (defaultProps\<lparr>animationSpeed := 0, luminanceOffset := 0.5\<rparr>) hooksLoaded mounted3d"
    "frameRuns3d (defaultProps\<lparr>animationSpeed := 0\<rparr>) hooksLoaded mounted3d"
    by (simp_all add: frameRuns3d_def defaultProps_def hooksLoaded_def)
  have a: "shaderType (defaultProps\<lparr>animationSpeed := 0, luminanceOffset := 0.5\<rparr>) = Ascii"
    "shaderType (defaultProps\<lparr>animationSpeed := 0\<rparr>) = Ascii"
    by (simp_all add: defaultProps_def)
  have i: "patternIndexOfTile u (0, 0) (0.5, 0.5, 0.5) = 2" if "uTime u = 0" for u :: asciiUniforms
    using that
    by (simp add: patternIndexOfTile_def calculateLuminance_def glsl_clamp_def invertLum_def
        selectPatternIndex_def glsl_clampi_def Let_def)
  have z: "selectPatternIndex (0.5 - 0.5) = 0"
    by (simp add: selectPatternIndex_def glsl_clampi_def)
  show ?thesis
    using frame3d_ignores_luminance_props z
      i [OF frame3d_ascii_uniforms(2) [OF r(1) a(1), simplified]]
      i [OF frame3d_ascii_uniforms(2) [OF r(2) a(2), simplified]]
    by simp
qed

subsection \<open>Claim C7\<close>

text \<open>
  C7 as the code has it. The configured tile size reaches the shaders unchanged, in the
  frame callbacks and where the materials are created (the default is 6); nothing rejects
  or clamps it. The tile computation \<open>floor(pix / uBaseTileSize)\<close> divides by zero exactly
  when the uniform is zero.
\<close>

theorem C7_tile_size_passed_unchanged:
  "(frameRuns3d props h st \<and> shaderType props = Ascii \<longrightarrow>
      uBaseTileSize (asciiU (frame3d props h st)) = tileSize props)
   \<and> (frameRuns3d props h st \<and> shaderType props \<noteq> Ascii \<longrightarrow>
      map_option c_uBaseTileSize (customU (frame3d props h st)) = Some (tileSize props))
   \<and> uBaseTileSize (newAsciiMaterial props h) = tileSize props
   \<and> uBaseTileSize (newPatternMaterial props2 h2) = tileSize props2
   \<and> uBaseTileSize (patternU (frame2d props2 h2 st2)) = uBaseTileSize (patternU st2)
   \<and> (tilePos u fragCoord = None \<longleftrightarrow> uBaseTileSize u = 0)
   \<and> tileSize defaultProps = 6"
  using frame3d_ascii_uniforms(1) [of props h st] frame3d_custom_uniforms [of props h st]
    frame2d_tileSize [of props2 h2 st2] tilePos_None [of u fragCoord]
  by (simp add: newAsciiMaterial_def newPatternMaterial_def defaultProps_def)

text \<open>The theorem at the default tile size, for the pattern effect and for a filter.\<close>

theorem C7_witness:
  "frameRuns3d paintProps hooksLoaded mounted3d \<and> shaderType paintProps = Ascii
   \<and> uBaseTileSize (asciiU (frame3d paintProps hooksLoaded mounted3d)) = 6
   \<and> tilePos (asciiU (frame3d paintProps hooksLoaded mounted3d)) (10, 10) \<noteq> None
   \<and> frameRuns3d (defaultProps\<lparr>shaderType := Pixelate\<rparr>) hooksLoaded
        (mounted3d\<lparr>customU := newCustomShaderMaterial (defaultProps\<lparr>shaderType := Pixelate\<rparr>) hooksLoaded\<rparr>)
   \<and> map_option c_uBaseTileSize
        (customU (frame3d (defaultProps\<lparr>shaderType := Pixelate\<rparr>) hooksLoaded
           (mounted3d\<lparr>customU := newCustomShaderMaterial (defaultProps\<lparr>shaderType := Pixelate\<rparr>) hooksLoaded\<rparr>)))
       = Some 6"
  using C7_tile_size_passed_unchanged [of paintProps hooksLoaded mounted3d cardProps2d hooks2dLoaded mounted2d
        "asciiU (frame3d paintProps hooksLoaded mounted3d)" "(10, 10)"]
    C7_tile_size_passed_unchanged [of "defaultProps\<lparr>shaderType := Pixelate\<rparr>" hooksLoaded
        "mounted3d\<lparr>customU := newCustomShaderMaterial (defaultProps\<lparr>shaderType := Pixelate\<rparr>) hooksLoaded\<rparr>"
        cardProps2d hooks2dLoaded mounted2d
        "asciiU (frame3d paintProps hooksLoaded mounted3d)" "(10, 10)"]
    runs_mounted3d(1)
  by (simp add: paintProps_fields paintProps_def defaultProps_def frameRuns3d_def
      newCustomShaderMaterial_def shaderMap_def)

text \<open>
  A tile size of 0 reaches the shader as 0 and the tile computation divides by zero; a
  negative tile size reaches it unchanged as well.
\<close>

theorem C7_counterexample:
  "uBaseTileSize (asciiU (frame3d (defaultProps\<lparr>tileSize := 0\<rparr>) hooksLoaded mounted3d)) = 0
   \<and> tilePos (asciiU (frame3d (defaultProps\<lparr>tileSize := 0\<rparr>) hooksLoaded mounted3d)) (10, 10) = None
   \<and> uBaseTileSize (asciiU (frame3d (defaultProps\<lparr>tileSize := - 6\<rparr>) hooksLoaded mounted3d)) = - 6"
proof -
  have r: "frameRuns3d (defaultProps\<lparr>tileSize := t\<rparr>) hooksLoaded mounted3d" for t
    by (simp add: frameRuns3d_def defaultProps_def hooksLoaded_def)
  have a: "shaderType (defaultProps\<lparr>tileSize := t\<rparr>) = Ascii" for t
    by (simp add: defaultProps_def)
  show ?thesis
    by (simp add: frame3d_ascii_uniforms(1) [OF r a] tilePos_None)
qed

subsection \<open>Claim C8\<close>

text \<open>
  C8. A frame draws a splat exactly when it runs, the pointer is active (painting enabled,
  the card hovered, coordinates not negative; for AsciiFluidScene interactivity enabled and
  the canvas hovered), a previous position is recorded, and 100 times the displacement
  exceeds 0.1 on some axis. At a displacement of exactly \<open>(0, 0)\<close> no splat runs, and the
  pointer handling leaves the velocity field and the density field as they were.
\<close>

theorem C8_splat_only_beyond_deadband:
  "(SplatPass \<in> fst ` set (newPasses (gl st) (gl (frame3d props h st)))
      \<longleftrightarrow> frameRuns3d props h st \<and> simulateGuard props \<and> splatFires (mouseUV props) st)
   \<and> (SplatPass \<in> fst ` set (newPasses (gl st2) (gl (frame2d props2 h2 st2)))
      \<longleftrightarrow> frameRuns2d h2 \<and> enableInteractivity props2 \<and> isHoveredRef st2
          \<and> splatFires (mouseRef st2) st2)
   \<and> splatFires m st =
       (isMouseInitRef st \<and>
        (\<bar>(fst m - fst (lastMouseRef st)) * 100\<bar> > 0.1 \<or> \<bar>(snd m - snd (lastMouseRef st)) * 100\<bar> > 0.1))
   \<and> \<not> splatFires (lastMouseRef st) st
   \<and> velocityField (pointerBlock (lastMouseRef st) sz st) = velocityField st
   \<and> densityField (pointerBlock (lastMouseRef st) sz st) = densityField st"
proof -
  have a: "SplatPass \<in> fst ` set (newPasses (gl st) (gl (frame3d props h st)))
      \<longleftrightarrow> frameRuns3d props h st \<and> simulateGuard props \<and> splatFires (mouseUV props) st"
    by (cases "frameRuns3d props h st"; cases "simulateGuard props";
        cases "splatFires (mouseUV props) st"; cases "densityInitializedRef st";
        cases "shaderType props = Ascii"; simp add: frame3d_newPasses)
  have b: "SplatPass \<in> fst ` set (newPasses (gl st2) (gl (frame2d props2 h2 st2)))
      \<longleftrightarrow> frameRuns2d h2 \<and> enableInteractivity props2 \<and> isHoveredRef st2
          \<and> splatFires (mouseRef st2) st2"
    by (cases "frameRuns2d h2"; cases "enableInteractivity props2"; cases "isHoveredRef st2";
        cases "splatFires (mouseRef st2) st2"; simp add: frame2d_newPasses)
  show ?thesis
    using a b splatFires_zero [of st] pointerBlock_idle_fields [of "lastMouseRef st" st sz, OF splatFires_zero]
    by (simp add: splatFires_def)
qed

theorem C8_witness:
  "SplatPass \<in> fst ` set (newPasses (gl hovering3d) (gl (frame3d paintProps hooksLoaded hovering3d)))
   \<and> SplatPass \<notin> fst ` set (newPasses (gl hovering3d)
        (gl (frame3d firstHoverProps hooksLoaded hovering3d)))
   \<and> SplatPass \<notin> fst ` set (newPasses (gl hovering3d)
        (gl (frame3d idleProps hooksLoaded hovering3d)))"
proof -
  have z: "\<not> splatFires (mouseUV firstHoverProps) hovering3d"
    using splatFires_zero [of hovering3d] by (simp add: firstHover_fields hovering3d_fields)
  show ?thesis
    using C8_splat_only_beyond_deadband [of hovering3d paintProps hooksLoaded mounted2d
          cardProps2d hooks2dLoaded "(0.5, 0.5)" "(300, 350)"]
      C8_splat_only_beyond_deadband [of hovering3d firstHoverProps hooksLoaded mounted2d
          cardProps2d hooks2dLoaded "(0.5, 0.5)" "(300, 350)"]
      C8_splat_only_beyond_deadband [of hovering3d idleProps hooksLoaded mounted2d
          cardProps2d hooks2dLoaded "(0.5, 0.5)" "(300, 350)"]
      runs_mounted3d(2) paintProps_fields(2) splatFires_hovering3d z idleProps_fields(2)
    by (simp add: paintProps_fields(3))
qed

subsection \<open>Claim C9\<close>

text \<open>
  C9. Swapping a ping-pong pair twice restores the read and write assignment; a swap
  exchanges the two roles; after any number of swaps of a pair as the constructor makes it,
  the read buffer and the write target are the two distinct buffers of the pair; and the
  pairs of a mounted scene start with distinct buffers in the two roles and keep them so
  across every frame of either callback.
\<close>

theorem C9_swap_involution_and_roles:
  "swap (swap d) = d
   \<and> fbo_read (swap d) = fbo_write d \<and> fbo_write (swap d) = fbo_read d
   \<and> fbo_read ((swap ^^ k) (fst (newDoubleFBO n))) \<noteq> fbo_write ((swap ^^ k) (fst (newDoubleFBO n)))
   \<and> {fbo_read ((swap ^^ k) (fst (newDoubleFBO n))), fbo_write ((swap ^^ k) (fst (newDoubleFBO n)))}
       = {n, Suc n}
   \<and> buffersDistinct (mountScene3DAscii props h g n)
   \<and> buffersDistinct (mountAsciiFluidScene props2 h2 g n)
   \<and> buffersDistinct (frame3d props h st) = buffersDistinct st
   \<and> buffersDistinct (frame2d props2 h2 st2) = buffersDistinct st2"
proof -
  have "fbo_read ((swap ^^ k) (fst (newDoubleFBO n))) \<noteq> fbo_write ((swap ^^ k) (fst (newDoubleFBO n)))
   \<and> {fbo_read ((swap ^^ k) (fst (newDoubleFBO n))), fbo_write ((swap ^^ k) (fst (newDoubleFBO n)))}
       = {n, Suc n}"
    by (auto simp add: swap_iterate swap_fields newDoubleFBO_def newRenderTarget_def)
  then show ?thesis
    by (simp add: swap_swap swap_fields mount_distinct frame3d_distinct frame2d_distinct)
qed

subsection \<open>Claim C10\<close>

text \<open>
  C10. Both frame callbacks leave the renderer's bound target and its \<open>autoClear\<close> flag as
  they found them, on every path; a frame that runs has meanwhile drawn into its own
  buffers and has drawn the display pass onto the visible surface with \<open>autoClear\<close> off.
\<close>

theorem C10_renderer_state_restored:
  "renderTarget (gl (frame3d props h st)) = renderTarget (gl st)
   \<and> autoClear (gl (frame3d props h st)) = autoClear (gl st)
   \<and> renderTarget (gl (frame2d props2 h2 st2)) = renderTarget (gl st2)
   \<and> autoClear (gl (frame2d props2 h2 st2)) = autoClear (gl st2)
   \<and> (frameRuns3d props h st \<longrightarrow>
        (ModelPass, Some (sceneFBO st), autoClear (gl st)) \<in> set (newPasses (gl st) (gl (frame3d props h st)))
        \<and> (DisplayPass, None, False) \<in> set (newPasses (gl st) (gl (frame3d props h st))))
   \<and> (frameRuns2d h2 \<longrightarrow>
        (PatternPass, Some (patternFBO st2), autoClear (gl st2)) \<in> set (newPasses (gl st2) (gl (frame2d props2 h2 st2)))
        \<and> (DisplayPass, None, False) \<in> set (newPasses (gl st2) (gl (frame2d props2 h2 st2))))"
  by (simp add: frame3d_restores frame2d_restores frame3d_newPasses frame2d_newPasses)

theorem C10_witness:
  "frameRuns3d paintProps hooksLoaded mounted3d
   \<and> renderTarget (gl mounted3d) = Some 9 \<and> autoClear (gl mounted3d) = True
   \<and> renderTarget (gl (frame3d paintProps hooksLoaded mounted3d)) = Some 9
   \<and> autoClear (gl (frame3d paintProps hooksLoaded mounted3d)) = True
   \<and> (ModelPass, Some 0, True) \<in> set (newPasses (gl mounted3d) (gl (frame3d paintProps hooksLoaded mounted3d)))
   \<and> (DisplayPass, None, False) \<in> set (newPasses (gl mounted3d) (gl (frame3d paintProps hooksLoaded mounted3d)))
   \<and> frameRuns2d hooks2dLoaded
   \<and> renderTarget (gl (frame2d cardProps2d hooks2dLoaded mounted2d)) = Some 9
   \<and> autoClear (gl (frame2d cardProps2d hooks2dLoaded mounted2d)) = True
   \<and> (DisplayPass, None, False) \<in> set (newPasses (gl mounted2d) (gl (frame2d cardProps2d hooks2dLoaded mounted2d)))"
  using C10_renderer_state_restored [of paintProps hooksLoaded mounted3d cardProps2d hooks2dLoaded mounted2d]
    runs_mounted3d(1)
  by (simp add: mounted3d_fields frameRuns2d_def hooks2dLoaded_def mounted2d_def
      mountAsciiFluidScene_def newDoubleFBO_def newRenderTarget_def hostRenderer_def)

end
